theory Spec2Isabelle
  imports Main
begin

section \<open>JavaScript values and strings\<close>

text \<open>
  The values that travel through the proxy are parsed JSON plus \<open>undefined\<close>.
  An object is a map from keys to values (the order of its keys is not modelled);
  a number is an integer, the only thing the code asks of a number being whether
  it is zero. Strings are lists of 8-bit code units.
\<close>

datatype jsval =
    JUndefined
  | JNull
  | JBool bool
  | JNum int
  | JStr string
  | JArr "jsval list"
  | JObj "string \<Rightarrow> jsval option"

text \<open>JavaScript truthiness, as used by \<open>||\<close>, \<open>if\<close> and \<open>!\<close>.\<close>

fun truthy :: "jsval \<Rightarrow> bool" where
  "truthy JUndefined = False"
| "truthy JNull = False"
| "truthy (JBool b) = b"
| "truthy (JNum n) = (n \<noteq> 0)"
| "truthy (JStr s) = (s \<noteq> [])"
| "truthy (JArr xs) = True"
| "truthy (JObj m) = True"

text \<open>\<open>a || b\<close>\<close>

definition js_or :: "jsval \<Rightarrow> jsval \<Rightarrow> jsval" where
  "js_or a b = (if truthy a then a else b)"

text \<open>\<open>v === null || v === undefined\<close>: reading a property of such a value throws.\<close>

fun nullish :: "jsval \<Rightarrow> bool" where
  "nullish JUndefined = True"
| "nullish JNull = True"
| "nullish v = False"

text \<open>
  \<open>v.k\<close> for a value that is not nullish and a key \<open>k\<close> that is no built-in
  property of strings or arrays (the code reads \<open>success\<close>, \<open>message\<close>, \<open>data\<close>,
  \<open>object\<close>, \<open>results\<close>, \<open>errors\<close> and \<open>token\<close> only).
\<close>

fun get_prop :: "jsval \<Rightarrow> string \<Rightarrow> jsval" where
  "get_prop (JObj m) k = (case m k of None \<Rightarrow> JUndefined | Some v \<Rightarrow> v)"
| "get_prop v k = JUndefined"

text \<open>\<open>String.prototype.toLowerCase\<close> on code units below 256.\<close>

definition lower_char :: "char \<Rightarrow> char" where
  "lower_char c =
     (let n = (of_char c :: nat)
      in if (65 \<le> n \<and> n \<le> 90) \<or> (192 \<le> n \<and> n \<le> 214) \<or> (216 \<le> n \<and> n \<le> 222)
         then char_of (n + 32) else c)"

definition toLowerCase :: "string \<Rightarrow> string" where
  "toLowerCase s = map lower_char s"

text \<open>\<open>s.startsWith(pre)\<close>\<close>

definition startsWith :: "string \<Rightarrow> string \<Rightarrow> bool" where
  "startsWith s pre = (take (length pre) s = pre)"

section \<open>Tool names (index.ts)\<close>

text \<open>A character matched by the class \<open>[a-z0-9]\<close>.\<close>

definition is_lower_alnum :: "char \<Rightarrow> bool" where
  "is_lower_alnum c =
     (let n = (of_char c :: nat) in (97 \<le> n \<and> n \<le> 122) \<or> (48 \<le> n \<and> n \<le> 57))"

text \<open>\<open>s.replace(/[^a-z0-9]/g, '_')\<close>\<close>

primrec replace_non_alnum :: "string \<Rightarrow> string" where
  "replace_non_alnum [] = []"
| "replace_non_alnum (c # cs) =
     (if is_lower_alnum c then c else CHR ''_'') # replace_non_alnum cs"

definition processorToToolName :: "string \<Rightarrow> string \<Rightarrow> string" where
  "processorToToolName ns action =
     (let cleanNamespace = replace_non_alnum (toLowerCase ns);
          cleanAction = replace_non_alnum (toLowerCase action)
      in ''modx_'' @ cleanNamespace @ ''_'' @ cleanAction)"

text \<open>
  The claim's wording of the same mapping: the characters that survive are the 36
  of \<open>[a-z0-9]\<close>, listed one by one; every other character becomes an underscore.
\<close>

definition alnum_chars :: string where
  "alnum_chars = ''abcdefghijklmnopqrstuvwxyz0123456789''"

definition spec_clean_char :: "char \<Rightarrow> char" where
  "spec_clean_char c =
     (if lower_char c \<in> set alnum_chars then lower_char c else CHR ''_'')"

section \<open>Processor descriptors and generated tools (index.ts)\<close>

text \<open>
  A parameter as the remote sends it. \<open>required\<close> and \<open>default\<close> are kept as
  JavaScript values: the code compares the one with \<open>=== true\<close> and the other with
  \<open>undefined\<close>, \<open>null\<close> and \<open>''\<close>.
\<close>

record parameter =
  p_name :: string
  p_type :: string
  p_required :: jsval
  p_description :: string
  p_default :: jsval
  p_value :: jsval

record processor =
  path :: string
  namespace :: string
  description :: string
  cls :: string
  src_file :: string
  parameters :: "parameter list"

record property =
  prop_type :: string
  prop_description :: string
  prop_default :: "jsval option"

record input_schema =
  schema_type :: string
  properties :: "string \<Rightarrow> property option"
  required :: "string list option"
  additionalProperties :: "bool option"

record tool =
  tool_name :: string
  tool_description :: string
  inputSchema :: input_schema

text \<open>The reverse mapping searches the dispatcher's cache for the first processor
  whose generated name is the queried one.\<close>

fun find_processor :: "processor list \<Rightarrow> string \<Rightarrow> (string \<times> string) option" where
  "find_processor [] toolName = None"
| "find_processor (p # ps) toolName =
     (if processorToToolName (namespace p) (path p) = toolName
      then Some (namespace p, path p)
      else find_processor ps toolName)"

definition toolNameToProcessor ::
  "processor list option \<Rightarrow> string \<Rightarrow> (string \<times> string) option" where
  "toolNameToProcessor processorsCache toolName =
     (if startsWith toolName ''modx_''
      then (case processorsCache of
              None \<Rightarrow> None
            | Some ps \<Rightarrow> find_processor ps toolName)
      else None)"

definition modxTypeToJsonSchemaType :: "string \<Rightarrow> string" where
  "modxTypeToJsonSchemaType modxType =
     (let t = toLowerCase modxType
      in if t = ''integer'' \<or> t = ''int'' then ''integer''
         else if t = ''boolean'' \<or> t = ''bool'' then ''boolean''
         else if t = ''string'' \<or> t = ''text'' then ''string''
         else if t = ''array'' then ''array''
         else if t = ''object'' then ''object''
         else if t = ''mixed'' then ''string''
         else ''string'')"

text \<open>The guard that skips a parameter: no name, the permission check, or a
  leading underscore.\<close>

definition skip_param :: "parameter \<Rightarrow> bool" where
  "skip_param p =
     (p_name p = [] \<or> p_name p = ''_permission_check'' \<or> startsWith (p_name p) ''_'')"

text \<open>\<open>d !== undefined && d !== null && d !== ''\<close>\<close>

definition has_default :: "jsval \<Rightarrow> bool" where
  "has_default d = (d \<noteq> JUndefined \<and> d \<noteq> JNull \<and> d \<noteq> JStr [])"

definition param_property :: "parameter \<Rightarrow> property" where
  "param_property p =
     \<lparr> prop_type = modxTypeToJsonSchemaType (if p_type p = [] then ''string'' else p_type p),
       prop_description =
         (if p_description p = [] then ''Parameter: '' @ p_name p else p_description p),
       prop_default = (if has_default (p_default p) then Some (p_default p) else None) \<rparr>"

text \<open>The loop over the parameters, with its two accumulators.\<close>

fun build_schema ::
  "parameter list \<Rightarrow> (string \<Rightarrow> property option) \<Rightarrow> string list
     \<Rightarrow> (string \<Rightarrow> property option) \<times> string list" where
  "build_schema [] props req = (props, req)"
| "build_schema (p # ps) props req =
     (if skip_param p then build_schema ps props req
      else build_schema ps (props(p_name p \<mapsto> param_property p))
             (if p_required p = JBool True then req @ [p_name p] else req))"

definition createProcessorTool :: "processor \<Rightarrow> tool" where
  "createProcessorTool proc =
     (let (props, req) = build_schema (parameters proc) Map.empty []
      in \<lparr> tool_name = processorToToolName (namespace proc) (path proc),
           tool_description =
             description proc @ '' ('' @ namespace proc @ ''/'' @ path proc @ '')'',
           inputSchema =
             \<lparr> schema_type = ''object'', properties = props, required = Some req,
               additionalProperties = Some True \<rparr> \<rparr>)"

text \<open>The claim's enumerated type mapping, as a table with a default.\<close>

definition spec_type :: "string \<Rightarrow> string" where
  "spec_type t =
     (case map_of
        [(''integer'', ''integer''), (''int'', ''integer''),
         (''boolean'', ''boolean''), (''bool'', ''boolean''),
         (''string'', ''string''), (''text'', ''string''),
         (''array'', ''array''), (''object'', ''object'')] t of
        Some j \<Rightarrow> j
      | None \<Rightarrow> ''string'')"

section \<open>The session client (class ModxProxyService)\<close>

record session_info =
  si_isAuthenticated :: bool
  si_baseUrl :: "string option"
  si_connectorUrl :: "string option"
  si_user :: "jsval option"
  si_loginTime :: "nat option"
  si_lastActivity :: "nat option"

record processor_list =
  processors :: "processor list"
  total :: int
  generated_at :: string

text \<open>The POSTs the client issues: the URL and what the form carries.\<close>

datatype request =
    Login_request string string string
  | Discovery_request string jsval
  | Processor_request string "string \<Rightarrow> jsval option"

text \<open>
  The private fields of \<open>ModxProxyService\<close>. \<open>authToken\<close> holds whatever the
  login response carried, so it is a JavaScript value; \<open>requests\<close> is the trace of
  the POSTs issued so far.
\<close>

record service =
  baseUrl :: string
  connectorPath :: string
  adminPath :: string
  modxMcpConnectorPath :: string
  isAuthenticated :: bool
  sessionInfo :: session_info
  processorCache :: "processor_list option"
  authToken :: jsval
  cookieJar :: "string list"
  requests :: "request list"

text \<open>
  What one POST comes back with. \<open>response.data\<close> is either a string, given
  together with what \<open>JSON.parse\<close> makes of it (\<open>None\<close>: it throws), or a value the
  HTTP client has parsed already. A response carries the cookies it sets.
\<close>

datatype 'a response_data =
    Text_body string "'a option"
  | Value_body 'a

datatype 'a http_outcome =
    Http_ok "string list" "'a response_data"
  | Http_status "string list" nat string
  | No_response string

text \<open>
  The discovery response as the interface \<open>ProcessorList\<close> types it: a field is
  \<open>None\<close> when the remote left it out (or sent a falsy value).
\<close>

record listing_object =
  lo_processors :: "processor list option"
  lo_total :: "int option"
  lo_generated_at :: "string option"

record listing_reply =
  lr_success :: bool
  lr_object :: "listing_object option"
  lr_message :: "string option"

text \<open>Thrown errors, by the message the code builds.\<close>

datatype cause =
    Invalid_json_component
  | Remote_failure "string option"
  | Type_error

datatype error =
    Not_authenticated
  | Session_expired
  | Http_error "nat option" string
  | Failed_to_get_processors cause
  | Processor_call_failed cause
  | Unknown_tool string

record login_result =
  lg_success :: bool
  lg_message :: jsval
  lg_user :: "jsval option"
  lg_sessionInfo :: "session_info option"

record logout_result =
  lo_success :: bool
  lo_message :: string

definition endsWith :: "string \<Rightarrow> string \<Rightarrow> bool" where
  "endsWith s suf = (drop (length s - length suf) s = suf \<and> length suf \<le> length s)"

definition normalizePath :: "string \<Rightarrow> string" where
  "normalizePath p =
     (let p1 = (if startsWith p ''/'' then p else ''/'' @ p);
          p2 = (if endsWith p1 ''/'' then p1 else p1 @ ''/'')
      in p2)"

definition no_session :: session_info where
  "no_session =
     \<lparr> si_isAuthenticated = False, si_baseUrl = None, si_connectorUrl = None,
       si_user = None, si_loginTime = None, si_lastActivity = None \<rparr>"

text \<open>\<open>env || fallback\<close> for an environment variable.\<close>

definition env_or :: "string option \<Rightarrow> string \<Rightarrow> string" where
  "env_or v fallback = (case v of None \<Rightarrow> fallback | Some s \<Rightarrow> if s = [] then fallback else s)"

text \<open>The constructor, given the three environment variables it reads.\<close>

definition new_service :: "string option \<Rightarrow> string option \<Rightarrow> string option \<Rightarrow> service" where
  "new_service env_base env_connector env_admin =
     \<lparr> baseUrl = env_or env_base ''http://localhost'',
       connectorPath = normalizePath (env_or env_connector ''/connectors/''),
       adminPath = normalizePath (env_or env_admin ''/manager/''),
       modxMcpConnectorPath = ''/assets/components/modx-mcp/connector.php'',
       isAuthenticated = False,
       sessionInfo = no_session,
       processorCache = None,
       authToken = JStr [],
       cookieJar = [],
       requests = [] \<rparr>"

text \<open>\<open>baseUrl.replace(/\/$/, '')\<close>\<close>

definition strip_trailing_slash :: "string \<Rightarrow> string" where
  "strip_trailing_slash s = (if s \<noteq> [] \<and> last s = CHR ''/'' then butlast s else s)"

definition store_cookies :: "string list \<Rightarrow> service \<Rightarrow> service" where
  "store_cookies cs s = s\<lparr>cookieJar := cookieJar s @ cs\<rparr>"

definition log_request :: "request \<Rightarrow> service \<Rightarrow> service" where
  "log_request r s = s\<lparr>requests := requests s @ [r]\<rparr>"

text \<open>\<open>this.sessionInfo.lastActivity = new Date()\<close>\<close>

definition touch :: "nat \<Rightarrow> service \<Rightarrow> service" where
  "touch now s = s\<lparr>sessionInfo := (sessionInfo s)\<lparr>si_lastActivity := Some now\<rparr>\<rparr>"

text \<open>The two assignments of the 401/403 branch.\<close>

definition invalidate :: "service \<Rightarrow> service" where
  "invalidate s =
     s\<lparr>isAuthenticated := False,
       sessionInfo := (sessionInfo s)\<lparr>si_isAuthenticated := False\<rparr>\<rparr>"

text \<open>The result of the parsing step (\<open>None\<close>: \<open>JSON.parse\<close> threw).\<close>

fun parse_body :: "'a response_data \<Rightarrow> 'a option" where
  "parse_body (Text_body s r) = r"
| "parse_body (Value_body v) = Some v"

text \<open>The wording of the engine's TypeError is not modelled.\<close>

definition type_error_message :: string where
  "type_error_message = ''Cannot read properties of null''"

definition login_failed :: "string \<Rightarrow> service \<Rightarrow> login_result \<times> service" where
  "login_failed msg s =
     (\<lparr> lg_success = False, lg_message = JStr (''Authentication error: '' @ msg),
        lg_user = None, lg_sessionInfo = None \<rparr>,
      s\<lparr>isAuthenticated := False\<rparr>)"

text \<open>\<open>result.object?.token || ''\<close> and \<open>result.object || result.data\<close>\<close>

definition login_token :: "jsval \<Rightarrow> jsval" where
  "login_token result =
     (let obj = get_prop result ''object''
      in js_or (if nullish obj then JUndefined else get_prop obj ''token'') (JStr []))"

definition login_user :: "jsval \<Rightarrow> jsval" where
  "login_user result = js_or (get_prop result ''object'') (get_prop result ''data'')"

definition login ::
  "nat \<Rightarrow> jsval http_outcome \<Rightarrow> string \<Rightarrow> string \<Rightarrow> string option \<Rightarrow> service
     \<Rightarrow> login_result \<times> service" where
  "login now resp username password base s =
     (let s1 = (case base of
                  None \<Rightarrow> s
                | Some b \<Rightarrow> if b = [] then s else s\<lparr>baseUrl := strip_trailing_slash b\<rparr>);
          connectorUrl = baseUrl s1 @ connectorPath s1;
          s2 = log_request (Login_request connectorUrl username password) s1
      in case resp of
           No_response msg \<Rightarrow> login_failed msg s2
         | Http_status cs st msg \<Rightarrow> login_failed msg (store_cookies cs s2)
         | Http_ok cs d \<Rightarrow>
             (let s3 = store_cookies cs s2
              in case parse_body d of
                   None \<Rightarrow> login_failed ''Invalid JSON response from MODX'' s3
                 | Some result \<Rightarrow>
                     if nullish result then login_failed type_error_message s3
                     else if truthy (get_prop result ''success'') then
                       (let info = \<lparr> si_isAuthenticated = True,
                                     si_baseUrl = Some (baseUrl s3),
                                     si_connectorUrl = Some connectorUrl,
                                     si_user = Some (login_user result),
                                     si_loginTime = Some now,
                                     si_lastActivity = Some now \<rparr>
                        in (\<lparr> lg_success = True,
                               lg_message = JStr ''Successfully authenticated with MODX'',
                               lg_user = Some (login_user result),
                               lg_sessionInfo = Some info \<rparr>,
                            s3\<lparr>isAuthenticated := True, authToken := login_token result,
                               sessionInfo := info\<rparr>))
                     else
                       (\<lparr> lg_success = False,
                          lg_message = js_or (get_prop result ''message'')
                                             (JStr ''Authentication failed''),
                          lg_user = None, lg_sessionInfo = None \<rparr>,
                        s3\<lparr>isAuthenticated := False\<rparr>)))"

text \<open>The \<open>catch\<close> block shared by \<open>getProcessors\<close> and \<open>callProcessor\<close>, for an
  error of the HTTP client.\<close>

definition http_failure :: "nat option \<Rightarrow> string \<Rightarrow> service \<Rightarrow> (error + 'r) \<times> service" where
  "http_failure status msg s =
     (if status = Some 401 \<or> status = Some 403
      then (Inl Session_expired, invalidate s)
      else (Inl (Http_error status msg), s))"

definition accept_listing :: "listing_reply \<Rightarrow> service \<Rightarrow> (error + processor_list) \<times> service" where
  "accept_listing r s =
     (case (if lr_success r then lr_object r else None) of
        Some ob \<Rightarrow>
          (let processorList =
                 \<lparr> processors = (case lo_processors ob of None \<Rightarrow> [] | Some ps \<Rightarrow> ps),
                   total = (case lo_total ob of None \<Rightarrow> 0 | Some n \<Rightarrow> n),
                   generated_at =
                     (case lo_generated_at ob of
                        None \<Rightarrow> ''unknown''
                      | Some g \<Rightarrow> if g = [] then ''unknown'' else g) \<rparr>
           in (Inr processorList, s\<lparr>processorCache := Some processorList\<rparr>))
      | None \<Rightarrow> (Inl (Failed_to_get_processors (Remote_failure (lr_message r))), s))"

text \<open>\<open>getProcessors\<close> after its cache check.\<close>

definition fetch_processors ::
  "nat \<Rightarrow> listing_reply http_outcome \<Rightarrow> service \<Rightarrow> (error + processor_list) \<times> service" where
  "fetch_processors now resp s =
     (if \<not> isAuthenticated s then (Inl Not_authenticated, s)
      else
        (let s1 = touch now s;
             connectorUrl = baseUrl s1 @ modxMcpConnectorPath s1;
             s2 = log_request (Discovery_request connectorUrl (authToken s1)) s1
         in case resp of
              No_response msg \<Rightarrow> http_failure None msg s2
            | Http_status cs st msg \<Rightarrow> http_failure (Some st) msg (store_cookies cs s2)
            | Http_ok cs d \<Rightarrow>
                (case parse_body d of
                   None \<Rightarrow>
                     (Inl (Failed_to_get_processors Invalid_json_component),
                      store_cookies cs s2)
                 | Some result \<Rightarrow> accept_listing result (store_cookies cs s2))))"

definition getProcessors ::
  "nat \<Rightarrow> listing_reply http_outcome \<Rightarrow> bool \<Rightarrow> service
     \<Rightarrow> (error + processor_list) \<times> service" where
  "getProcessors now resp refresh s =
     (case processorCache s of
        Some cached \<Rightarrow> if \<not> refresh then (Inr cached, s) else fetch_processors now resp s
      | None \<Rightarrow> fetch_processors now resp s)"

text \<open>Decimal keys, for the own properties of an array or a string.\<close>

definition digit_char :: "nat \<Rightarrow> char" where
  "digit_char d = char_of (48 + d)"

fun decimal :: "nat \<Rightarrow> string" where
  "decimal n = (if n < 10 then [digit_char n] else decimal (n div 10) @ [digit_char (n mod 10)])"

declare decimal.simps [simp del]

text \<open>The own enumerable properties that \<open>...result\<close> copies.\<close>

fun own_props :: "jsval \<Rightarrow> (string \<Rightarrow> jsval option)" where
  "own_props (JObj m) = m"
| "own_props (JArr xs) = map_of (zip (map decimal [0..<length xs]) xs)"
| "own_props (JStr s) = map_of (zip (map decimal [0..<length s]) (map (\<lambda>c. JStr [c]) s))"
| "own_props v = Map.empty"

text \<open>The object literal that \<open>callProcessor\<close> returns: six computed fields, then
  the spread of the remote result over them.\<close>

definition processor_result :: "jsval \<Rightarrow> (string \<Rightarrow> jsval option)" where
  "processor_result result =
     [''success'' \<mapsto> JBool (get_prop result ''success'' \<noteq> JBool False),
      ''message'' \<mapsto> get_prop result ''message'',
      ''data'' \<mapsto> js_or (js_or (get_prop result ''data'') (get_prop result ''object''))
                     (get_prop result ''results''),
      ''errors'' \<mapsto> get_prop result ''errors'',
      ''object'' \<mapsto> get_prop result ''object'',
      ''results'' \<mapsto> get_prop result ''results'']
     ++ own_props result"

text \<open>The stand-in for a body that is not JSON.\<close>

definition raw_result :: "string \<Rightarrow> jsval" where
  "raw_result body =
     JObj [''success'' \<mapsto> JBool True, ''data'' \<mapsto> JStr body, ''raw'' \<mapsto> JBool True]"

definition callProcessor ::
  "nat \<Rightarrow> jsval http_outcome \<Rightarrow> string \<Rightarrow> string \<Rightarrow> (string \<Rightarrow> jsval option) \<Rightarrow> service
     \<Rightarrow> (error + (string \<Rightarrow> jsval option)) \<times> service" where
  "callProcessor now resp ns action data s =
     (if \<not> isAuthenticated s then (Inl Not_authenticated, s)
      else
        (let s1 = touch now s;
             connectorUrl = baseUrl s1 @ connectorPath s1;
             processorData =
               [''action'' \<mapsto> JStr action, ''format'' \<mapsto> JStr ''json'',
                ''HTTP_MODAUTH'' \<mapsto> authToken s1] ++ data;
             s2 = log_request (Processor_request connectorUrl processorData) s1
         in case resp of
              No_response msg \<Rightarrow> http_failure None msg s2
            | Http_status cs st msg \<Rightarrow> http_failure (Some st) msg (store_cookies cs s2)
            | Http_ok cs d \<Rightarrow>
                (let result = (case d of
                                 Text_body body None \<Rightarrow> raw_result body
                               | Text_body body (Some v) \<Rightarrow> v
                               | Value_body v \<Rightarrow> v)
                 in if nullish result
                    then (Inl (Processor_call_failed Type_error), store_cookies cs s2)
                    else (Inr (processor_result result), store_cookies cs s2))))"

text \<open>The three assignments that \<open>logout\<close> makes on both of its paths.\<close>

definition clear_session :: "service \<Rightarrow> service" where
  "clear_session s = s\<lparr>isAuthenticated := False, authToken := JStr [], sessionInfo := no_session\<rparr>"

text \<open>\<open>logout\<close>; \<open>jar_ok\<close> tells whether \<open>removeAllCookies\<close> succeeds.\<close>

definition logout ::
  "nat \<Rightarrow> jsval http_outcome \<Rightarrow> bool \<Rightarrow> service \<Rightarrow> logout_result \<times> service" where
  "logout now resp jar_ok s =
     (case (if isAuthenticated s
            then callProcessor now resp ''core'' ''security/logout'' Map.empty s
            else (Inr Map.empty, s)) of
        (Inl e, s1) \<Rightarrow>
          (\<lparr> lo_success = True, lo_message = ''Logged out (session cleared locally)'' \<rparr>,
           clear_session s1)
      | (Inr r, s1) \<Rightarrow>
          (if jar_ok
           then (\<lparr> lo_success = True, lo_message = ''Successfully logged out from MODX'' \<rparr>,
                 (clear_session s1)\<lparr>cookieJar := []\<rparr>)
           else (\<lparr> lo_success = True, lo_message = ''Logged out (session cleared locally)'' \<rparr>,
                 clear_session (clear_session s1))))"

definition getSessionInfo :: "service \<Rightarrow> session_info" where
  "getSessionInfo s = sessionInfo s"

section \<open>The dispatcher (index.ts)\<close>

text \<open>The module state: the client and the module's own \<open>processorsCache\<close>.\<close>

record dispatcher =
  modxProxy :: service
  processorsCache :: "processor list option"

definition baseTool :: tool where
  "baseTool =
     \<lparr> tool_name = ''modx_get_session_info'',
       tool_description = ''Get information about current MODX session'',
       inputSchema =
         \<lparr> schema_type = ''object'', properties = Map.empty, required = None,
           additionalProperties = None \<rparr> \<rparr>"

definition getAllTools ::
  "nat \<Rightarrow> listing_reply http_outcome \<Rightarrow> dispatcher \<Rightarrow> tool list \<times> dispatcher" where
  "getAllTools now resp d =
     (if \<not> si_isAuthenticated (getSessionInfo (modxProxy d)) then ([baseTool], d)
      else
        (case processorsCache d of
           Some ps \<Rightarrow> (baseTool # map createProcessorTool ps, d)
         | None \<Rightarrow>
             (case getProcessors now resp False (modxProxy d) of
                (Inl e, s) \<Rightarrow> ([baseTool], d\<lparr>modxProxy := s\<rparr>)
              | (Inr pl, s) \<Rightarrow>
                  (baseTool # map createProcessorTool (processors pl),
                   d\<lparr>modxProxy := s, processorsCache := Some (processors pl)\<rparr>))))"

text \<open>What the call handler serialises into its text content.\<close>

datatype payload =
    Session_payload session_info
  | Result_payload "string \<Rightarrow> jsval option"
  | Failure_payload error string "(string \<Rightarrow> jsval option) option"

record call_response =
  content :: payload
  isError :: bool

definition callTool ::
  "nat \<Rightarrow> jsval http_outcome \<Rightarrow> string \<Rightarrow> (string \<Rightarrow> jsval option) option \<Rightarrow> dispatcher
     \<Rightarrow> call_response \<times> dispatcher" where
  "callTool now resp name args d =
     (if name = ''modx_get_session_info''
      then (\<lparr> content = Session_payload (getSessionInfo (modxProxy d)), isError = False \<rparr>, d)
      else
        (case (if startsWith name ''modx_''
               then toolNameToProcessor (processorsCache d) name else None) of
           Some (ns, action) \<Rightarrow>
             (case callProcessor now resp ns action
                     (case args of None \<Rightarrow> Map.empty | Some a \<Rightarrow> a) (modxProxy d) of
                (Inr r, s) \<Rightarrow>
                  (\<lparr> content = Result_payload r, isError = False \<rparr>, d\<lparr>modxProxy := s\<rparr>)
              | (Inl e, s) \<Rightarrow>
                  (\<lparr> content = Failure_payload e name args, isError = True \<rparr>,
                   d\<lparr>modxProxy := s\<rparr>))
         | None \<Rightarrow>
             (\<lparr> content = Failure_payload (Unknown_tool name) name args, isError = True \<rparr>, d)))"

definition start :: "string option \<Rightarrow> string option \<Rightarrow> string option \<Rightarrow> dispatcher" where
  "start env_base env_connector env_admin =
     \<lparr> modxProxy = new_service env_base env_connector env_admin, processorsCache = None \<rparr>"

subsection \<open>Handlers that overlap\<close>

text \<open>
  The handlers are asynchronous. A tools/list that finds \<open>processorsCache\<close> empty
  runs as far as \<open>await modxProxy.getProcessors()\<close> and is resumed when the client
  has its answer; whatever else the process does is served in between. So
  \<open>getProcessors\<close> and \<open>getAllTools\<close> are each cut in two at the await: what was
  left pending is either the HTTP request, or a result the client had at once
  (the cached list, or the unauthenticated error).
\<close>

datatype pending =
    Awaiting_response
  | Settled "error + processor_list"

definition fetch_begin :: "nat \<Rightarrow> service \<Rightarrow> pending \<times> service" where
  "fetch_begin now s =
     (if \<not> isAuthenticated s then (Settled (Inl Not_authenticated), s)
      else
        (let s1 = touch now s;
             connectorUrl = baseUrl s1 @ modxMcpConnectorPath s1
         in (Awaiting_response,
             log_request (Discovery_request connectorUrl (authToken s1)) s1)))"

definition getProcessors_begin :: "nat \<Rightarrow> bool \<Rightarrow> service \<Rightarrow> pending \<times> service" where
  "getProcessors_begin now refresh s =
     (case processorCache s of
        Some cached \<Rightarrow> if \<not> refresh then (Settled (Inr cached), s) else fetch_begin now s
      | None \<Rightarrow> fetch_begin now s)"

definition getProcessors_resume ::
  "pending \<Rightarrow> listing_reply http_outcome \<Rightarrow> service
     \<Rightarrow> (error + processor_list) \<times> service" where
  "getProcessors_resume p resp s =
     (case p of
        Settled r \<Rightarrow> (r, s)
      | Awaiting_response \<Rightarrow>
          (case resp of
             No_response msg \<Rightarrow> http_failure None msg s
           | Http_status cs st msg \<Rightarrow> http_failure (Some st) msg (store_cookies cs s)
           | Http_ok cs d \<Rightarrow>
               (case parse_body d of
                  None \<Rightarrow>
                    (Inl (Failed_to_get_processors Invalid_json_component),
                     store_cookies cs s)
                | Some result \<Rightarrow> accept_listing result (store_cookies cs s))))"

text \<open>A tools/list either answers at once or is left waiting for the client.\<close>

datatype listing_progress =
    Listed "tool list"
  | Suspended pending

definition getAllTools_begin :: "nat \<Rightarrow> dispatcher \<Rightarrow> listing_progress \<times> dispatcher" where
  "getAllTools_begin now d =
     (if \<not> si_isAuthenticated (getSessionInfo (modxProxy d)) then (Listed [baseTool], d)
      else
        (case processorsCache d of
           Some ps \<Rightarrow> (Listed (baseTool # map createProcessorTool ps), d)
         | None \<Rightarrow>
             (case getProcessors_begin now False (modxProxy d) of
                (p, s) \<Rightarrow> (Suspended p, d\<lparr>modxProxy := s\<rparr>))))"

text \<open>The rest of \<open>getAllTools\<close> after the await: the assignment is not guarded by a
  second test of the cache.\<close>

definition getAllTools_resume ::
  "pending \<Rightarrow> listing_reply http_outcome \<Rightarrow> dispatcher \<Rightarrow> tool list \<times> dispatcher" where
  "getAllTools_resume p resp d =
     (case getProcessors_resume p resp (modxProxy d) of
        (Inl e, s) \<Rightarrow> ([baseTool], d\<lparr>modxProxy := s\<rparr>)
      | (Inr pl, s) \<Rightarrow>
          (baseTool # map createProcessorTool (processors pl),
           d\<lparr>modxProxy := s, processorsCache := Some (processors pl)\<rparr>))"

text \<open>
  The process: the module state and the tools/list handlers that are waiting, by
  request id. Its steps are the two halves of a tools/list, and anything else.
  Nothing else in the module assigns \<open>processorsCache\<close> (the call handler reads
  it), so anything else - a tool call or one half of it, the client's login,
  logout or forced refresh - is some change of the client's state. Requests that
  wait at the same time have different ids: a tools/list whose id is already
  waiting is not started, and an answer for an id that is not waiting is dropped.
\<close>

record system =
  module_state :: dispatcher
  in_flight :: "nat \<Rightarrow> pending option"

datatype activity =
    Begin_list nat nat
  | Finish_list nat "listing_reply http_outcome"
  | Other "service \<Rightarrow> service"

fun sys_step :: "system \<Rightarrow> activity \<Rightarrow> system" where
  "sys_step st (Begin_list rid now) =
     (case in_flight st rid of
        Some p \<Rightarrow> st
      | None \<Rightarrow>
          (case getAllTools_begin now (module_state st) of
             (Listed ts, d) \<Rightarrow> st\<lparr>module_state := d\<rparr>
           | (Suspended p, d) \<Rightarrow>
               st\<lparr>module_state := d, in_flight := (in_flight st)(rid \<mapsto> p)\<rparr>))"
| "sys_step st (Finish_list rid resp) =
     (case in_flight st rid of
        None \<Rightarrow> st
      | Some p \<Rightarrow>
          st\<lparr>module_state := snd (getAllTools_resume p resp (module_state st)),
             in_flight := (in_flight st)(rid := None)\<rparr>)"
| "sys_step st (Other f) =
     st\<lparr>module_state := (module_state st)\<lparr>modxProxy := f (modxProxy (module_state st))\<rparr>\<rparr>"

declare sys_step.simps [simp del]

definition sys_run :: "system \<Rightarrow> activity list \<Rightarrow> system" where
  "sys_run st acts = foldl sys_step st acts"

text \<open>A module state with no handler waiting.\<close>

definition idle :: "dispatcher \<Rightarrow> system" where
  "idle d = \<lparr> module_state = d, in_flight = Map.empty \<rparr>"

section \<open>Reading results\<close>

text \<open>The remote accepts a login: the response is a 2xx whose body parses to a value
  with a truthy \<open>success\<close> (the branch of \<open>login\<close> that stores the session).\<close>

fun accepted :: "jsval http_outcome \<Rightarrow> bool" where
  "accepted (Http_ok cs d) =
     (case parse_body d of
        None \<Rightarrow> False
      | Some result \<Rightarrow> \<not> nullish result \<and> truthy (get_prop result ''success''))"
| "accepted (Http_status cs st msg) = False"
| "accepted (No_response msg) = False"

text \<open>A field of the object that \<open>callProcessor\<close> returned (\<open>None\<close> when it threw, or
  when the object has no such key).\<close>

definition result_field :: "(error + (string \<Rightarrow> jsval option)) \<Rightarrow> string \<Rightarrow> jsval option" where
  "result_field r k = (case r of Inl e \<Rightarrow> None | Inr obj \<Rightarrow> obj k)"

text \<open>A field of the user payload held in the session info.\<close>

definition user_field :: "service \<Rightarrow> string \<Rightarrow> jsval option" where
  "user_field s k = (case si_user (sessionInfo s) of None \<Rightarrow> None | Some u \<Rightarrow> Some (get_prop u k))"

text \<open>The session invariant: while the flag says authenticated, the auth token and
  the user payload are the given ones (those that a login stored).\<close>

definition session_from :: "jsval \<Rightarrow> jsval \<Rightarrow> service \<Rightarrow> bool" where
  "session_from token user s =
     (isAuthenticated s \<longrightarrow> authToken s = token \<and> si_user (sessionInfo s) = Some user)"

section \<open>Example data and an example session\<close>

abbreviation getlist_slash :: processor where
  "getlist_slash \<equiv>
     \<lparr> path = ''resource/getlist'', namespace = ''core'', description = ''List resources'',
       cls = ''modResourceGetListProcessor'', src_file = ''getlist.class.php'',
       parameters = [] \<rparr>"

abbreviation getlist_underscore :: processor where
  "getlist_underscore \<equiv>
     \<lparr> path = ''resource_getlist'', namespace = ''core'', description = ''Other listing'',
       cls = ''otherProcessor'', src_file = ''other.class.php'', parameters = [] \<rparr>"

abbreviation resource_create :: processor where
  "resource_create \<equiv>
     \<lparr> path = ''resource/create'', namespace = ''core'', description = ''Create a resource'',
       cls = ''modResourceCreateProcessor'', src_file = ''create.class.php'',
       parameters = [] \<rparr>"

abbreviation nameless_param :: parameter where
  "nameless_param \<equiv>
     \<lparr> p_name = [], p_type = ''integer'', p_required = JBool True,
       p_description = ''no name'', p_default = JUndefined, p_value = JUndefined \<rparr>"

abbreviation limit_param :: parameter where
  "limit_param \<equiv>
     \<lparr> p_name = ''limit'', p_type = ''Integer'', p_required = JBool True,
       p_description = [], p_default = JNum 20, p_value = JUndefined \<rparr>"

abbreviation start_param :: parameter where
  "start_param \<equiv>
     \<lparr> p_name = ''start'', p_type = ''int'', p_required = JNum 1,
       p_description = ''Offset'', p_default = JStr [], p_value = JUndefined \<rparr>"

abbreviation start_again_param :: parameter where
  "start_again_param \<equiv>
     \<lparr> p_name = ''start'', p_type = ''array'', p_required = JBool False,
       p_description = ''Offsets'', p_default = JNull, p_value = JUndefined \<rparr>"

abbreviation internal_param :: parameter where
  "internal_param \<equiv>
     \<lparr> p_name = ''_permission_check'', p_type = ''boolean'', p_required = JBool True,
       p_description = ''internal'', p_default = JBool True, p_value = JUndefined \<rparr>"

definition listing_processor :: processor where
  "listing_processor =
     \<lparr> path = ''resource/getlist'', namespace = ''core'', description = ''List resources'',
       cls = ''modResourceGetListProcessor'', src_file = ''getlist.class.php'',
       parameters =
         [nameless_param, limit_param, internal_param, start_param, start_again_param] \<rparr>"

abbreviation login_accepted :: "jsval http_outcome" where
  "login_accepted \<equiv>
     Http_ok [''PHPSESSID=1'']
       (Value_body (JObj [''success'' \<mapsto> JBool True,
                          ''object'' \<mapsto> JObj [''token'' \<mapsto> JStr ''T1'',
                                               ''username'' \<mapsto> JStr ''admin'']]))"

abbreviation login_refused :: "jsval http_outcome" where
  "login_refused \<equiv>
     Http_ok []
       (Value_body (JObj [''success'' \<mapsto> JBool False,
                          ''message'' \<mapsto> JStr ''Invalid credentials'']))"

abbreviation unauthorized :: "'a http_outcome" where
  "unauthorized \<equiv> Http_status [] 401 ''Request failed with status code 401''"

abbreviation server_error :: "'a http_outcome" where
  "server_error \<equiv> Http_status [] 500 ''Request failed with status code 500''"

abbreviation one_processor_list :: processor_list where
  "one_processor_list \<equiv>
     \<lparr> processors = [listing_processor], total = 1, generated_at = ''2024-01-01'' \<rparr>"

abbreviation one_processor :: "listing_reply http_outcome" where
  "one_processor \<equiv>
     Http_ok []
       (Value_body
          \<lparr> lr_success = True,
            lr_object = Some \<lparr> lo_processors = Some [listing_processor], lo_total = Some 1,
                               lo_generated_at = Some ''2024-01-01'' \<rparr>,
            lr_message = None \<rparr>)"

abbreviation no_processors :: "listing_reply http_outcome" where
  "no_processors \<equiv>
     Http_ok []
       (Value_body
          \<lparr> lr_success = True,
            lr_object = Some \<lparr> lo_processors = Some [], lo_total = Some 0,
                               lo_generated_at = Some ''2024-02-02'' \<rparr>,
            lr_message = None \<rparr>)"

abbreviation null_data_reply :: "string \<Rightarrow> jsval option" where
  "null_data_reply \<equiv>
     [''success'' \<mapsto> JBool True, ''data'' \<mapsto> JNull,
      ''object'' \<mapsto> JObj [''id'' \<mapsto> JNum 1]]"

abbreviation getlist_reply :: "string \<Rightarrow> jsval option" where
  "getlist_reply \<equiv>
     [''success'' \<mapsto> JBool True,
      ''results'' \<mapsto> JArr [JObj [''id'' \<mapsto> JNum 1, ''pagetitle'' \<mapsto> JStr ''Home'']]]"

abbreviation getlist_args :: "string \<Rightarrow> jsval option" where
  "getlist_args \<equiv> [''limit'' \<mapsto> JNum 3, ''start'' \<mapsto> JNum 0]"

text \<open>A client that logs in, lists the processors and logs out.\<close>

definition fresh :: service where
  "fresh = new_service None None None"

definition logged_in :: service where
  "logged_in =
     snd (login 100 login_accepted ''admin'' ''adminadmin'' (Some ''http://example.test'') fresh)"

definition listed :: service where
  "listed = snd (getProcessors 101 one_processor False logged_in)"

definition logged_out :: service where
  "logged_out =
     snd (logout 102 (Http_ok [] (Value_body (JObj [''success'' \<mapsto> JBool True]))) True listed)"

text \<open>The module from start-up through the automatic login and a first listing.\<close>

definition started :: dispatcher where
  "started = start None None None"

definition after_login :: dispatcher where
  "after_login =
     started\<lparr>modxProxy :=
       snd (login 100 login_accepted ''admin'' ''adminadmin'' (Some ''http://example.test'')
              (modxProxy started))\<rparr>"

definition after_listing :: dispatcher where
  "after_listing = snd (getAllTools 101 one_processor after_login)"

text \<open>Two tools/list requests that overlap, and things that happen later.\<close>

abbreviation first_finished :: "activity list" where
  "first_finished \<equiv> [Begin_list 11 101, Begin_list 12 102, Finish_list 11 one_processor]"

abbreviation both_finished :: "activity list" where
  "both_finished \<equiv>
     [Begin_list 11 101, Begin_list 12 102, Finish_list 11 one_processor,
      Finish_list 12 no_processors]"

abbreviation later_activities :: "activity list" where
  "later_activities \<equiv>
     [Other (\<lambda>s. snd (getProcessors 102 no_processors True s)),
      Other (\<lambda>s. snd (logout 103 (No_response ''offline'') True s)),
      Other (\<lambda>s. snd (login 104 login_accepted ''admin'' ''adminadmin'' None s)),
      Begin_list 17 105,
      Finish_list 17 no_processors]"

section \<open>Facts about tool names\<close>

lemma enum_alnum_ranges:
  "\<forall>n \<in> set ([97..<123] @ [48..<58]). (char_of (n::nat) :: char) \<in> set alnum_chars"
  by code_simp

lemma alnum_chars_are_alnum: "\<forall>c \<in> set alnum_chars. is_lower_alnum c"
  by code_simp

lemma is_lower_alnum_iff: "is_lower_alnum c \<longleftrightarrow> c \<in> set alnum_chars"
proof
  assume a: "is_lower_alnum c"
  define n where "n = (of_char c :: nat)"
  have "n \<in> set ([97..<123] @ [48..<58])"
  proof -
    from a have "(97 \<le> n \<and> n < 123) \<or> (48 \<le> n \<and> n < 58)"
      unfolding is_lower_alnum_def n_def Let_def by arith
    then show ?thesis
      by (simp only: set_append set_upt Un_iff atLeastLessThan_iff)
  qed
  with enum_alnum_ranges have "(char_of n :: char) \<in> set alnum_chars" by blast
  then show "c \<in> set alnum_chars" by (simp add: n_def)
next
  assume "c \<in> set alnum_chars"
  with alnum_chars_are_alnum show "is_lower_alnum c" by blast
qed

lemma replace_non_alnum_map:
  "replace_non_alnum (toLowerCase s) = map spec_clean_char s"
  by (induction s) (simp_all add: toLowerCase_def spec_clean_char_def is_lower_alnum_iff)

lemma startsWith_modx: "startsWith (processorToToolName ns a) ''modx_''"
  by (simp add: startsWith_def processorToToolName_def Let_def)

lemma tool_name_slash:
  "processorToToolName ''core'' ''resource/getlist'' = ''modx_core_resource_getlist''"
  by code_simp

lemma tool_name_underscore:
  "processorToToolName ''core'' ''resource_getlist'' = ''modx_core_resource_getlist''"
  by code_simp

lemma tool_name_mixed_case:
  "processorToToolName ''Core'' ''Resource/GetList'' = ''modx_core_resource_getlist''"
  by code_simp

lemma tool_name_create:
  "processorToToolName ''core'' ''resource/create'' = ''modx_core_resource_create''"
  by code_simp

lemma lower_ascii_letters:
  "toLowerCase ''ABCDEFGHIJKLMNOPQRSTUVWXYZ'' = ''abcdefghijklmnopqrstuvwxyz''"
  by code_simp

text \<open>
  C4. The generated name is \<open>modx_<namespace>_<path>\<close> where both parts are
  lower-cased and every character outside \<open>[a-z0-9]\<close> is replaced by \<open>_\<close>; the
  mapping is a function of its two arguments, and (Core, Resource/GetList) and
  (core, resource_getlist) receive the same name.
\<close>

theorem processorToToolName_spec:
  "processorToToolName ns action
     = ''modx_'' @ map spec_clean_char ns @ ''_'' @ map spec_clean_char action
   \<and> toLowerCase ''ABCDEFGHIJKLMNOPQRSTUVWXYZ'' = ''abcdefghijklmnopqrstuvwxyz''
   \<and> processorToToolName ''Core'' ''Resource/GetList''
       = processorToToolName ''core'' ''resource_getlist''
   \<and> processorToToolName ''Core'' ''Resource/GetList'' = ''modx_core_resource_getlist''"
proof -
  have "processorToToolName ns action
     = ''modx_'' @ map spec_clean_char ns @ ''_'' @ map spec_clean_char action"
    by (simp add: processorToToolName_def Let_def replace_non_alnum_map)
  then show ?thesis
    by (simp only: lower_ascii_letters tool_name_mixed_case tool_name_underscore simp_thms)
qed


section \<open>Reverse lookup of tool names\<close>

lemma find_processor_hit:
  "d \<in> set cache \<Longrightarrow>
   \<exists>e \<in> set cache.
      processorToToolName (namespace e) (path e) = processorToToolName (namespace d) (path d)
      \<and> find_processor cache (processorToToolName (namespace d) (path d))
          = Some (namespace e, path e)"
  by (induction cache) auto

lemma find_processor_first:
  "\<forall>e \<in> set pre. processorToToolName (namespace e) (path e) \<noteq> t \<Longrightarrow>
   find_processor (pre @ post) t = find_processor post t"
  by (induction pre) auto

text \<open>
  C2 (as stated). For a cached descriptor \<open>d\<close>, resolving its tool name yields
  \<open>(d.namespace, d.path)\<close>. This fails when an earlier descriptor of the cache
  has the same generated name: the search returns the first match.
\<close>

theorem toolNameToProcessor_collision_counterexample:
  "getlist_underscore \<in> set [getlist_slash, getlist_underscore]
   \<and> toolNameToProcessor (Some [getlist_slash, getlist_underscore])
        (processorToToolName (namespace getlist_underscore) (path getlist_underscore))
       = Some (''core'', ''resource/getlist'')
   \<and> (namespace getlist_underscore, path getlist_underscore) \<noteq> (''core'', ''resource/getlist'')"
  by (simp add: toolNameToProcessor_def startsWith_def tool_name_slash tool_name_underscore)

text \<open>
  C2 (amended). Resolving the tool name of a cached descriptor \<open>d\<close> always succeeds
  and yields the namespace and path of a cached descriptor with the same
  generated name; it yields \<open>(d.namespace, d.path)\<close> itself whenever no descriptor
  earlier in the cache has the same generated name as \<open>d\<close>.
\<close>

theorem toolNameToProcessor_first_match:
  "(d \<in> set cache \<longrightarrow>
      (\<exists>e \<in> set cache.
          processorToToolName (namespace e) (path e)
            = processorToToolName (namespace d) (path d)
          \<and> toolNameToProcessor (Some cache) (processorToToolName (namespace d) (path d))
              = Some (namespace e, path e)))
   \<and> ((\<forall>e \<in> set pre. processorToToolName (namespace e) (path e)
                         \<noteq> processorToToolName (namespace d) (path d)) \<longrightarrow>
        toolNameToProcessor (Some (pre @ d # post))
            (processorToToolName (namespace d) (path d))
          = Some (namespace d, path d))"
  by (simp add: toolNameToProcessor_def startsWith_modx find_processor_hit find_processor_first)

theorem toolNameToProcessor_first_match_witness:
  "toolNameToProcessor (Some [resource_create, getlist_slash, getlist_underscore])
       (processorToToolName ''core'' ''resource/getlist'')
     = Some (''core'', ''resource/getlist'')
   \<and> (\<exists>e \<in> set [getlist_slash, getlist_underscore].
         processorToToolName (namespace e) (path e) = ''modx_core_resource_getlist''
         \<and> toolNameToProcessor (Some [getlist_slash, getlist_underscore])
              ''modx_core_resource_getlist'' = Some (namespace e, path e))"
proof -
  have h: "\<forall>e \<in> set [resource_create].
      processorToToolName (namespace e) (path e)
        \<noteq> processorToToolName (namespace getlist_slash) (path getlist_slash)"
    by (simp add: tool_name_slash tool_name_create)
  have m: "getlist_underscore \<in> set [getlist_slash, getlist_underscore]" by simp
  note t = toolNameToProcessor_first_match
             [where d = getlist_underscore and cache = "[getlist_slash, getlist_underscore]"]
  note u = toolNameToProcessor_first_match
             [where d = getlist_slash and pre = "[resource_create]"
                and post = "[getlist_underscore]"]
  from t [THEN conjunct1, THEN mp, OF m] u [THEN conjunct2, THEN mp, OF h]
  show ?thesis
    by (simp add: tool_name_underscore tool_name_slash)
qed

section \<open>Generated input schemas\<close>

lemma type_of_string_literal: "modxTypeToJsonSchemaType ''string'' = ''string''"
  by code_simp

lemma type_of_Integer: "modxTypeToJsonSchemaType ''Integer'' = ''integer''"
  by code_simp

lemma type_of_int: "modxTypeToJsonSchemaType ''int'' = ''integer''"
  by code_simp

lemma type_of_array: "modxTypeToJsonSchemaType ''array'' = ''array''"
  by code_simp

lemma spec_type_lower_Integer: "spec_type (toLowerCase ''Integer'') = ''integer''"
  by code_simp

lemma toLowerCase_Nil: "toLowerCase [] = []"
  by (simp add: toLowerCase_def)

lemma type_mapping_table:
  "modxTypeToJsonSchemaType (if t = [] then ''string'' else t) = spec_type (toLowerCase t)"
proof (cases "t = []")
  case True
  then show ?thesis
    by (simp add: type_of_string_literal toLowerCase_Nil spec_type_def)
next
  case False
  then show ?thesis
    by (simp add: modxTypeToJsonSchemaType_def spec_type_def Let_def)
qed

lemma skip_param_iff: "skip_param p \<longleftrightarrow> p_name p = [] \<or> hd (p_name p) = CHR ''_''"
  by (cases "p_name p") (auto simp: skip_param_def startsWith_def)

lemma build_schema_append:
  "build_schema (xs @ ys) props req =
     (case build_schema xs props req of (a, b) \<Rightarrow> build_schema ys a b)"
  by (induction xs arbitrary: props req) auto

lemma build_schema_keeps:
  "\<forall>q \<in> set ps. skip_param q \<or> p_name q \<noteq> k \<Longrightarrow>
   fst (build_schema ps props req) k = props k"
  by (induction ps arbitrary: props req) auto

lemma build_schema_dom:
  "dom (fst (build_schema ps props req))
     = dom props \<union> p_name ` {p \<in> set ps. \<not> skip_param p}"
  by (induction ps arbitrary: props req) auto

lemma build_schema_required:
  "snd (build_schema ps props req)
     = req @ map p_name (filter (\<lambda>p. \<not> skip_param p \<and> p_required p = JBool True) ps)"
  by (induction ps arbitrary: props req) auto

lemma build_schema_last:
  assumes "\<not> skip_param p" and "\<forall>q \<in> set post. skip_param q \<or> p_name q \<noteq> p_name p"
  shows "fst (build_schema (pre @ p # post) props req) (p_name p) = Some (param_property p)"
proof -
  obtain a b where ab: "build_schema pre props req = (a, b)"
    by (cases "build_schema pre props req")
  then have "fst (build_schema (pre @ p # post) props req) (p_name p)
      = fst (build_schema post (a(p_name p \<mapsto> param_property p))
               (if p_required p = JBool True then b @ [p_name p] else b)) (p_name p)"
    using assms(1) by (simp add: build_schema_append)
  also have "\<dots> = (a(p_name p \<mapsto> param_property p)) (p_name p)"
    using assms(2) by (rule build_schema_keeps)
  finally show ?thesis by simp
qed

lemma schema_of_tool:
  "inputSchema (createProcessorTool proc) =
     \<lparr> schema_type = ''object'',
       properties = fst (build_schema (parameters proc) Map.empty []),
       required = Some (snd (build_schema (parameters proc) Map.empty [])),
       additionalProperties = Some True \<rparr>"
  by (simp add: createProcessorTool_def split: prod.split)

lemma param_property_spec:
  "param_property p =
     \<lparr> prop_type = spec_type (toLowerCase (p_type p)),
       prop_description =
         (if p_description p = [] then ''Parameter: '' @ p_name p else p_description p),
       prop_default =
         (if p_default p \<in> {JUndefined, JNull, JStr []} then None else Some (p_default p)) \<rparr>"
  by (simp add: param_property_def type_mapping_table has_default_def)

lemma listing_tool_schema:
  "inputSchema (createProcessorTool listing_processor)
     = \<lparr> schema_type = ''object'',
         properties =
           [''limit'' \<mapsto> \<lparr> prop_type = ''integer'', prop_description = ''Parameter: limit'',
                            prop_default = Some (JNum 20) \<rparr>,
            ''start'' \<mapsto> \<lparr> prop_type = ''integer'', prop_description = ''Offset'',
                            prop_default = None \<rparr>,
            ''start'' \<mapsto> \<lparr> prop_type = ''array'', prop_description = ''Offsets'',
                            prop_default = None \<rparr>],
         required = Some [''limit''],
         additionalProperties = Some True \<rparr>"
  by (simp add: listing_processor_def createProcessorTool_def skip_param_def startsWith_def
        param_property_def has_default_def type_of_Integer type_of_int type_of_array)

text \<open>
  C5 (as stated). One property per parameter whose name neither begins with \<open>_\<close>
  nor is the reserved name, typed by the enumerated mapping. This fails in three
  ways on one processor: a parameter with an empty name is skipped too; the type
  name is lower-cased before it is looked up, so \<open>Integer\<close> (which the enumeration
  sends to \<open>string\<close>) becomes \<open>integer\<close>; and of two parameters with one name the
  later one replaces the property of the earlier.
\<close>

theorem createProcessorTool_claim_counterexample:
  "\<not> startsWith (p_name nameless_param) ''_''
   \<and> p_name nameless_param \<noteq> ''_permission_check''
   \<and> nameless_param \<in> set (parameters listing_processor)
   \<and> properties (inputSchema (createProcessorTool listing_processor)) (p_name nameless_param)
       = None
   \<and> limit_param \<in> set (parameters listing_processor)
   \<and> spec_type (p_type limit_param) = ''string''
   \<and> map_option prop_type
        (properties (inputSchema (createProcessorTool listing_processor)) ''limit'')
       = Some ''integer''
   \<and> start_param \<in> set (parameters listing_processor)
   \<and> spec_type (p_type start_param) = ''integer''
   \<and> map_option prop_type
        (properties (inputSchema (createProcessorTool listing_processor)) ''start'')
       = Some ''array''"
  by (simp add: listing_tool_schema startsWith_def spec_type_def)
     (simp add: listing_processor_def)

text \<open>
  C5 (amended). A parameter is excluded exactly when its name is empty or begins
  with \<open>_\<close> (the reserved name \<open>_permission_check\<close> is such a name). The schema's
  properties are keyed by the names of the parameters that are not excluded; the
  property of a name is made from the last such parameter with that name: its type
  is the enumerated mapping applied to the lower-cased type name (an empty type
  counts as \<open>string\<close>), and it has a default only when the parameter's default is
  defined, not null and not the empty string. The required list holds, in order,
  the names of the parameters that are not excluded and whose \<open>required\<close> flag
  is exactly \<open>true\<close>.
\<close>

theorem createProcessorTool_schema:
  "dom (properties (inputSchema (createProcessorTool proc)))
      = p_name ` {p \<in> set (parameters proc). \<not> skip_param p}
   \<and> required (inputSchema (createProcessorTool proc))
      = Some (map p_name (filter (\<lambda>p. \<not> skip_param p \<and> p_required p = JBool True) (parameters proc)))
   \<and> (parameters proc = pre @ p # post \<and> \<not> skip_param p
        \<and> (\<forall>q \<in> set post. skip_param q \<or> p_name q \<noteq> p_name p) \<longrightarrow>
        properties (inputSchema (createProcessorTool proc)) (p_name p)
          = Some \<lparr> prop_type = spec_type (toLowerCase (p_type p)),
                   prop_description =
                     (if p_description p = [] then ''Parameter: '' @ p_name p
                      else p_description p),
                   prop_default =
                     (if p_default p \<in> {JUndefined, JNull, JStr []} then None
                      else Some (p_default p)) \<rparr>)
   \<and> (skip_param p \<longleftrightarrow> p_name p = [] \<or> hd (p_name p) = CHR ''_'')"
proof -
  have 1: "dom (properties (inputSchema (createProcessorTool proc)))
      = p_name ` {p \<in> set (parameters proc). \<not> skip_param p}"
    by (simp add: schema_of_tool build_schema_dom)
  have 2: "required (inputSchema (createProcessorTool proc))
      = Some (map p_name (filter (\<lambda>p. \<not> skip_param p \<and> p_required p = JBool True) (parameters proc)))"
    by (simp add: schema_of_tool build_schema_required)
  have 3: "parameters proc = pre @ p # post \<and> \<not> skip_param p
        \<and> (\<forall>q \<in> set post. skip_param q \<or> p_name q \<noteq> p_name p) \<longrightarrow>
        properties (inputSchema (createProcessorTool proc)) (p_name p)
          = Some (param_property p)"
    by (simp add: schema_of_tool build_schema_last)
  from 1 2 3 skip_param_iff [of p] show ?thesis
    by (simp only: param_property_spec simp_thms)
qed

theorem createProcessorTool_schema_witness:
  "properties (inputSchema (createProcessorTool listing_processor)) ''limit''
     = Some \<lparr> prop_type = ''integer'', prop_description = ''Parameter: limit'',
              prop_default = Some (JNum 20) \<rparr>
   \<and> required (inputSchema (createProcessorTool listing_processor)) = Some [''limit'']"
proof -
  have h: "parameters listing_processor
             = [nameless_param] @ limit_param # [internal_param, start_param, start_again_param]
           \<and> \<not> skip_param limit_param
           \<and> (\<forall>q \<in> set [internal_param, start_param, start_again_param].
                 skip_param q \<or> p_name q \<noteq> p_name limit_param)"
    by (simp add: listing_processor_def skip_param_def startsWith_def)
  note t = createProcessorTool_schema
         [of listing_processor "[nameless_param]" limit_param
             "[internal_param, start_param, start_again_param]"]
  note req = t [THEN conjunct2, THEN conjunct1]
  note pfact = t [THEN conjunct2, THEN conjunct2, THEN conjunct1, THEN mp, OF h]
  have 1: "properties (inputSchema (createProcessorTool listing_processor)) ''limit''
     = Some \<lparr> prop_type = ''integer'', prop_description = ''Parameter: limit'',
              prop_default = Some (JNum 20) \<rparr>"
    using pfact by (simp add: spec_type_lower_Integer)
  have 2: "required (inputSchema (createProcessorTool listing_processor)) = Some [''limit'']"
    using req by (simp add: listing_processor_def skip_param_def startsWith_def)
  from 1 2 show ?thesis by (rule conjI)
qed

section \<open>The session client\<close>

lemma plumbing_fields:
  "authToken (store_cookies cs s) = authToken s"
  "sessionInfo (store_cookies cs s) = sessionInfo s"
  "isAuthenticated (store_cookies cs s) = isAuthenticated s"
  "processorCache (store_cookies cs s) = processorCache s"
  "authToken (log_request r s) = authToken s"
  "sessionInfo (log_request r s) = sessionInfo s"
  "isAuthenticated (log_request r s) = isAuthenticated s"
  "processorCache (log_request r s) = processorCache s"
  "authToken (touch now s) = authToken s"
  "si_user (sessionInfo (touch now s)) = si_user (sessionInfo s)"
  "si_isAuthenticated (sessionInfo (touch now s)) = si_isAuthenticated (sessionInfo s)"
  "isAuthenticated (touch now s) = isAuthenticated s"
  "processorCache (touch now s) = processorCache s"
  by (simp_all add: store_cookies_def log_request_def touch_def)

lemma invalidate_fields:
  "\<not> isAuthenticated (invalidate s)"
  "\<not> si_isAuthenticated (sessionInfo (invalidate s))"
  "authToken (invalidate s) = authToken s"
  "si_user (sessionInfo (invalidate s)) = si_user (sessionInfo s)"
  "processorCache (invalidate s) = processorCache s"
  by (simp_all add: invalidate_def)

lemma clear_session_fields:
  "\<not> isAuthenticated (clear_session s)"
  "authToken (clear_session s) = JStr []"
  "sessionInfo (clear_session s) = no_session"
  "processorCache (clear_session s) = processorCache s"
  by (simp_all add: clear_session_def)

lemma login_failed_fields:
  "\<not> lg_success (fst (login_failed msg s))"
  "\<not> isAuthenticated (snd (login_failed msg s))"
  "authToken (snd (login_failed msg s)) = authToken s"
  by (simp_all add: login_failed_def)

lemma getProcessors_cases:
  "(\<not> isAuthenticated s \<and> (processorCache s = None \<or> refresh) \<longrightarrow>
       getProcessors now resp refresh s = (Inl Not_authenticated, s))
   \<and> (processorCache s = Some cached \<and> \<not> refresh \<longrightarrow>
       getProcessors now resp refresh s = (Inr cached, s))"
  by (auto simp: getProcessors_def fetch_processors_def split: option.splits)

lemma getProcessors_fetches:
  "processorCache s = None \<or> refresh \<Longrightarrow>
   getProcessors now resp refresh s = fetch_processors now resp s"
  by (auto simp: getProcessors_def split: option.splits)

lemma http_failure_expired:
  "st = 401 \<or> st = 403 \<Longrightarrow> http_failure (Some st) msg s = (Inl Session_expired, invalidate s)"
  by (auto simp: http_failure_def)

lemma callProcessor_expired:
  "isAuthenticated s \<Longrightarrow> st = 401 \<or> st = 403 \<Longrightarrow>
   callProcessor now (Http_status cs st msg) ns action data s
     = (Inl Session_expired,
        invalidate (store_cookies cs
          (log_request (Processor_request (baseUrl s @ connectorPath s)
                   ([''action'' \<mapsto> JStr action, ''format'' \<mapsto> JStr ''json'',
                     ''HTTP_MODAUTH'' \<mapsto> authToken s] ++ data))
             (touch now s))))"
  by (simp add: callProcessor_def http_failure_expired Let_def touch_def)

lemma fetch_processors_expired:
  "isAuthenticated s \<Longrightarrow> st = 401 \<or> st = 403 \<Longrightarrow>
   fetch_processors now (Http_status cs st msg) s
     = (Inl Session_expired,
        invalidate (store_cookies cs
          (log_request (Discovery_request (baseUrl s @ modxMcpConnectorPath s) (authToken s))
             (touch now s))))"
  by (simp add: fetch_processors_def http_failure_expired Let_def touch_def)

lemma login_refusal:
  "\<not> accepted resp \<Longrightarrow>
     \<not> lg_success (fst (login now resp username password base s))
     \<and> \<not> isAuthenticated (snd (login now resp username password base s))
     \<and> authToken (snd (login now resp username password base s)) = authToken s"
  by (cases resp)
     (auto simp: login_def Let_def login_failed_fields plumbing_fields
           split: option.splits)

lemma logout_effect:
  "lo_success (fst (logout now resp jar_ok s))
   \<and> \<not> isAuthenticated (snd (logout now resp jar_ok s))
   \<and> authToken (snd (logout now resp jar_ok s)) = JStr []
   \<and> sessionInfo (snd (logout now resp jar_ok s)) = no_session"
  by (simp add: logout_def clear_session_fields split: prod.split sum.split)

lemma callProcessor_keeps_cache:
  "processorCache (snd (callProcessor now resp ns action data s)) = processorCache s"
  by (cases resp)
     (auto simp: callProcessor_def Let_def plumbing_fields http_failure_def invalidate_fields)

lemma logout_keeps_cache:
  "processorCache (snd (logout now resp jar_ok s)) = processorCache s"
proof (cases "isAuthenticated s")
  case True
  obtain r s1 where c: "callProcessor now resp ''core'' ''security/logout'' Map.empty s = (r, s1)"
    by (cases "callProcessor now resp ''core'' ''security/logout'' Map.empty s")
  with callProcessor_keeps_cache [of now resp "''core''" "''security/logout''" Map.empty s]
  have "processorCache s1 = processorCache s" by simp
  with True c show ?thesis
    by (cases r) (simp_all add: logout_def clear_session_fields)
next
  case False
  then show ?thesis
    by (simp add: logout_def clear_session_fields)
qed

lemma callProcessor_ok:
  "isAuthenticated s \<Longrightarrow>
   fst (callProcessor now (Http_ok cs d) ns action data s)
     = (let result = (case d of
                        Text_body body None \<Rightarrow> raw_result body
                      | Text_body body (Some v) \<Rightarrow> v
                      | Value_body v \<Rightarrow> v)
        in if nullish result then Inl (Processor_call_failed Type_error)
           else Inr (processor_result result))"
  by (simp add: callProcessor_def Let_def)

lemma processor_result_object:
  "processor_result (JObj m) ''success''
     = Some (case m ''success'' of None \<Rightarrow> JBool True | Some v \<Rightarrow> v)"
  "processor_result (JObj m) ''data''
     = Some (case m ''data'' of
               None \<Rightarrow> js_or (get_prop (JObj m) ''object'') (get_prop (JObj m) ''results'')
             | Some v \<Rightarrow> v)"
  "m k = Some v \<Longrightarrow> processor_result (JObj m) k = Some v"
  by (auto simp: processor_result_def map_add_def js_or_def split: option.splits)

lemma processor_result_raw:
  "processor_result (raw_result body) ''success'' = Some (JBool True)"
  "processor_result (raw_result body) ''data'' = Some (JStr body)"
  "processor_result (raw_result body) ''raw'' = Some (JBool True)"
  by (simp_all add: processor_result_def raw_result_def map_add_def)

lemma callProcessor_fields:
  "isAuthenticated s \<Longrightarrow> d = Value_body (JObj m) \<or> d = Text_body body (Some (JObj m)) \<Longrightarrow>
     result_field (fst (callProcessor now (Http_ok cs d) ns action data s)) ''success''
       = Some (case m ''success'' of None \<Rightarrow> JBool True | Some v \<Rightarrow> v)
     \<and> result_field (fst (callProcessor now (Http_ok cs d) ns action data s)) ''data''
       = Some (case m ''data'' of
                 None \<Rightarrow> js_or (get_prop (JObj m) ''object'') (get_prop (JObj m) ''results'')
               | Some v \<Rightarrow> v)
     \<and> (\<forall>k v. m k = Some v \<longrightarrow>
           result_field (fst (callProcessor now (Http_ok cs d) ns action data s)) k = Some v)"
  by (auto simp: callProcessor_ok result_field_def processor_result_object)

lemma callProcessor_keeps_session:
  "session_from token user s \<Longrightarrow>
   session_from token user (snd (callProcessor now resp ns action data s))"
  by (cases resp)
     (auto simp: session_from_def callProcessor_def Let_def plumbing_fields http_failure_def
        invalidate_fields)

lemma fetch_processors_keeps_session:
  "session_from token user s \<Longrightarrow> session_from token user (snd (fetch_processors now resp s))"
  by (cases resp)
     (auto simp: session_from_def fetch_processors_def accept_listing_def Let_def
        plumbing_fields http_failure_def invalidate_fields split: option.splits)

lemma getProcessors_keeps_session:
  "session_from token user s \<Longrightarrow>
   session_from token user (snd (getProcessors now resp refresh s))"
  by (auto simp: getProcessors_def fetch_processors_keeps_session split: option.splits)

lemma login_stores_session:
  "parse_body d = Some result \<Longrightarrow> \<not> nullish result \<Longrightarrow> truthy (get_prop result ''success'') \<Longrightarrow>
   isAuthenticated (snd (login now (Http_ok cs d) username password base s))
   \<and> session_from (login_token result) (login_user result)
        (snd (login now (Http_ok cs d) username password base s))"
  by (simp add: login_def Let_def session_from_def)

subsection \<open>The example session\<close>

lemma fresh_fields:
  "\<not> isAuthenticated fresh" "authToken fresh = JStr []" "processorCache fresh = None"
  "\<not> si_isAuthenticated (sessionInfo fresh)"
  by (simp_all add: fresh_def new_service_def no_session_def)

lemma logged_in_fields:
  "isAuthenticated logged_in"
  "authToken logged_in = JStr ''T1''"
  "processorCache logged_in = None"
  "si_isAuthenticated (sessionInfo logged_in)"
  "user_field logged_in ''username'' = Some (JStr ''admin'')"
  by (simp_all add: logged_in_def fresh_def login_def new_service_def Let_def log_request_def
        store_cookies_def js_or_def login_token_def login_user_def user_field_def)

lemma logged_in_listing:
  "fst (getProcessors 101 one_processor False logged_in) = Inr one_processor_list"
  by (simp add: getProcessors_def fetch_processors_def accept_listing_def logged_in_fields
        Let_def)

lemma logged_in_server_error:
  "fst (getProcessors 101 server_error False logged_in)
     = Inl (Http_error (Some 500) ''Request failed with status code 500'')"
  by (simp add: getProcessors_def fetch_processors_def http_failure_def logged_in_fields
        Let_def)

lemma listed_fields:
  "isAuthenticated listed"
  "si_isAuthenticated (sessionInfo listed)"
  "processorCache listed = Some one_processor_list"
  by (simp_all add: listed_def getProcessors_def fetch_processors_def accept_listing_def
        logged_in_fields Let_def plumbing_fields)

lemma logged_out_fields:
  "\<not> isAuthenticated logged_out"
  "processorCache logged_out = Some one_processor_list"
  by (simp_all add: logged_out_def logout_keeps_cache listed_fields logout_effect)

subsection \<open>Listing the processors without a session\<close>

text \<open>
  C1 (as stated). With \<open>authenticated == false\<close>, \<open>getProcessors\<close> fails whatever
  the cache and the refresh flag. This fails after login, listing and logout: the
  cache check comes first, and the cached list is returned.
\<close>

theorem getProcessors_cache_first_counterexample:
  "\<not> isAuthenticated logged_out
   \<and> fst (getProcessors 103 (No_response ''offline'') False logged_out)
       = Inr one_processor_list"
  using getProcessors_cases [where s = logged_out and refresh = False and now = 103
                                and resp = "No_response ''offline''"]
  by (simp add: logged_out_fields)

text \<open>
  C1 (amended). With \<open>authenticated == false\<close>, \<open>getProcessors\<close> fails with the
  unauthenticated error, and changes nothing, whenever it has no cached snapshot or
  a refresh is forced; with a cached snapshot and no forced refresh it returns the
  snapshot, whatever the authentication state.
\<close>

theorem getProcessors_unauthenticated:
  "(\<not> isAuthenticated s \<and> (processorCache s = None \<or> refresh) \<longrightarrow>
       getProcessors now resp refresh s = (Inl Not_authenticated, s))
   \<and> (processorCache s = Some cached \<and> \<not> refresh \<longrightarrow>
       getProcessors now resp refresh s = (Inr cached, s))"
  by (rule getProcessors_cases)

theorem getProcessors_unauthenticated_witness:
  "getProcessors 50 one_processor True fresh = (Inl Not_authenticated, fresh)
   \<and> getProcessors 103 (No_response ''offline'') False logged_out
       = (Inr one_processor_list, logged_out)"
proof -
  have h1: "\<not> isAuthenticated fresh \<and> (processorCache fresh = None \<or> True)"
    by (simp add: fresh_fields)
  have h2: "processorCache logged_out = Some one_processor_list \<and> \<not> False"
    by (simp add: logged_out_fields)
  from getProcessors_unauthenticated
         [where s = fresh and refresh = True and now = 50 and resp = one_processor,
          THEN conjunct1, THEN mp, OF h1]
       getProcessors_unauthenticated
         [where s = logged_out and refresh = False and now = 103
            and resp = "No_response ''offline''", THEN conjunct2, THEN mp, OF h2]
  show ?thesis by (rule conjI)
qed

subsection \<open>An expired session\<close>

text \<open>
  C3 (as stated). A 401/403 sets \<open>authenticated\<close> to false and clears the auth token
  and the user payload. The token and the user are in fact left as they were.
\<close>

theorem session_expired_keeps_token_counterexample:
  "fst (callProcessor 200 unauthorized ''core'' ''resource/getlist'' Map.empty logged_in)
     = Inl Session_expired
   \<and> authToken (snd (callProcessor 200 unauthorized ''core'' ''resource/getlist'' Map.empty
                        logged_in)) = JStr ''T1''
   \<and> user_field (snd (callProcessor 200 unauthorized ''core'' ''resource/getlist'' Map.empty
                         logged_in)) ''username''
       = Some (JStr ''admin'')"
  using logged_in_fields(5)
  by (simp add: callProcessor_expired logged_in_fields(1-4) invalidate_fields plumbing_fields
        user_field_def)

text \<open>
  C3 (amended). When \<open>callProcessor\<close>, or \<open>getProcessors\<close> going to the remote (no
  cached snapshot, or a forced refresh), meets a 401 or 403 in an authenticated
  session, it fails with the session-expired error and sets to false both the
  \<open>isAuthenticated\<close> flag and the session info's \<open>isAuthenticated\<close>; the auth token
  and the user payload of the session info stay as they were. The invariant is
  preserved all the same: an accepted login stores its token and user together
  with the flag, and neither operation, whatever the response, leaves the flag
  true with another token or user.
\<close>

theorem session_expired_effect:
  "(isAuthenticated s \<and> (st = 401 \<or> st = 403) \<longrightarrow>
      fst (callProcessor now (Http_status cs st msg) ns action data s) = Inl Session_expired
      \<and> \<not> isAuthenticated (snd (callProcessor now (Http_status cs st msg) ns action data s))
      \<and> \<not> si_isAuthenticated
            (sessionInfo (snd (callProcessor now (Http_status cs st msg) ns action data s)))
      \<and> authToken (snd (callProcessor now (Http_status cs st msg) ns action data s))
          = authToken s
      \<and> si_user (sessionInfo (snd (callProcessor now (Http_status cs st msg) ns action data s)))
          = si_user (sessionInfo s))
   \<and> (isAuthenticated s \<and> (st = 401 \<or> st = 403) \<and> (processorCache s = None \<or> refresh) \<longrightarrow>
      fst (getProcessors now (Http_status cs st msg) refresh s) = Inl Session_expired
      \<and> \<not> isAuthenticated (snd (getProcessors now (Http_status cs st msg) refresh s))
      \<and> \<not> si_isAuthenticated
            (sessionInfo (snd (getProcessors now (Http_status cs st msg) refresh s)))
      \<and> authToken (snd (getProcessors now (Http_status cs st msg) refresh s)) = authToken s
      \<and> si_user (sessionInfo (snd (getProcessors now (Http_status cs st msg) refresh s)))
          = si_user (sessionInfo s))
   \<and> (parse_body d = Some result \<and> \<not> nullish result \<and> truthy (get_prop result ''success'')
        \<longrightarrow>
      isAuthenticated (snd (login now (Http_ok cs d) username password base s))
      \<and> session_from (login_token result) (login_user result)
           (snd (login now (Http_ok cs d) username password base s)))
   \<and> (session_from token user s \<longrightarrow>
      session_from token user (snd (callProcessor now resp ns action data s))
      \<and> session_from token user (snd (getProcessors now lresp refresh s)))"
proof -
  have 1: "isAuthenticated s \<and> (st = 401 \<or> st = 403) \<longrightarrow>
      fst (callProcessor now (Http_status cs st msg) ns action data s) = Inl Session_expired
      \<and> \<not> isAuthenticated (snd (callProcessor now (Http_status cs st msg) ns action data s))
      \<and> \<not> si_isAuthenticated
            (sessionInfo (snd (callProcessor now (Http_status cs st msg) ns action data s)))
      \<and> authToken (snd (callProcessor now (Http_status cs st msg) ns action data s))
          = authToken s
      \<and> si_user (sessionInfo (snd (callProcessor now (Http_status cs st msg) ns action data s)))
          = si_user (sessionInfo s)"
    by (auto simp: callProcessor_expired invalidate_fields plumbing_fields)
  have 2: "isAuthenticated s \<and> (st = 401 \<or> st = 403) \<and> (processorCache s = None \<or> refresh) \<longrightarrow>
      fst (getProcessors now (Http_status cs st msg) refresh s) = Inl Session_expired
      \<and> \<not> isAuthenticated (snd (getProcessors now (Http_status cs st msg) refresh s))
      \<and> \<not> si_isAuthenticated
            (sessionInfo (snd (getProcessors now (Http_status cs st msg) refresh s)))
      \<and> authToken (snd (getProcessors now (Http_status cs st msg) refresh s)) = authToken s
      \<and> si_user (sessionInfo (snd (getProcessors now (Http_status cs st msg) refresh s)))
          = si_user (sessionInfo s)"
    by (auto simp: getProcessors_fetches fetch_processors_expired invalidate_fields
          plumbing_fields)
  have 3: "parse_body d = Some result \<and> \<not> nullish result
        \<and> truthy (get_prop result ''success'') \<longrightarrow>
      isAuthenticated (snd (login now (Http_ok cs d) username password base s))
      \<and> session_from (login_token result) (login_user result)
           (snd (login now (Http_ok cs d) username password base s))"
    using login_stores_session [of d result now cs username password base s] by blast
  have 4: "session_from token user s \<longrightarrow>
      session_from token user (snd (callProcessor now resp ns action data s))
      \<and> session_from token user (snd (getProcessors now lresp refresh s))"
    by (simp add: callProcessor_keeps_session getProcessors_keeps_session)
  show ?thesis
    by (rule conjI [OF 1 conjI [OF 2 conjI [OF 3 4]]])
qed

theorem session_expired_effect_witness:
  "fst (callProcessor 200 unauthorized ''core'' ''resource/getlist'' Map.empty logged_in)
     = Inl Session_expired
   \<and> \<not> isAuthenticated
         (snd (callProcessor 200 unauthorized ''core'' ''resource/getlist'' Map.empty logged_in))
   \<and> fst (getProcessors 200 unauthorized False logged_in) = Inl Session_expired
   \<and> \<not> si_isAuthenticated (sessionInfo (snd (getProcessors 200 unauthorized False logged_in)))
   \<and> authToken (snd (getProcessors 200 unauthorized False logged_in)) = JStr ''T1''
   \<and> isAuthenticated logged_in
   \<and> session_from (JStr ''T1'')
        (JObj [''token'' \<mapsto> JStr ''T1'', ''username'' \<mapsto> JStr ''admin''])
        (snd (getProcessors 101 one_processor False logged_in))"
proof -
  have h1: "isAuthenticated logged_in \<and> ((401::nat) = 401 \<or> (401::nat) = 403)"
    by (simp add: logged_in_fields)
  have h2: "isAuthenticated logged_in \<and> ((401::nat) = 401 \<or> (401::nat) = 403)
            \<and> (processorCache logged_in = None \<or> False)"
    by (simp add: logged_in_fields)
  have h3: "parse_body (Value_body (JObj [''success'' \<mapsto> JBool True,
                          ''object'' \<mapsto> JObj [''token'' \<mapsto> JStr ''T1'',
                                               ''username'' \<mapsto> JStr ''admin'']]))
              = Some (JObj [''success'' \<mapsto> JBool True,
                          ''object'' \<mapsto> JObj [''token'' \<mapsto> JStr ''T1'',
                                               ''username'' \<mapsto> JStr ''admin'']])
            \<and> \<not> nullish (JObj [''success'' \<mapsto> JBool True,
                          ''object'' \<mapsto> JObj [''token'' \<mapsto> JStr ''T1'',
                                               ''username'' \<mapsto> JStr ''admin'']])
            \<and> truthy (get_prop (JObj [''success'' \<mapsto> JBool True,
                          ''object'' \<mapsto> JObj [''token'' \<mapsto> JStr ''T1'',
                                               ''username'' \<mapsto> JStr ''admin'']]) ''success'')"
    by simp
  note t = session_expired_effect
             [where s = logged_in and st = 401 and now = 200 and cs = "[]"
                and msg = "''Request failed with status code 401''" and ns = "''core''"
                and action = "''resource/getlist''" and data = Map.empty and refresh = False]
  note l = session_expired_effect
             [where s = fresh and now = 100 and cs = "[''PHPSESSID=1'']"
                and d = "Value_body (JObj [''success'' \<mapsto> JBool True,
                          ''object'' \<mapsto> JObj [''token'' \<mapsto> JStr ''T1'',
                                               ''username'' \<mapsto> JStr ''admin'']])"
                and result = "JObj [''success'' \<mapsto> JBool True,
                          ''object'' \<mapsto> JObj [''token'' \<mapsto> JStr ''T1'',
                                               ''username'' \<mapsto> JStr ''admin'']]"
                and username = "''admin''" and password = "''adminadmin''"
                and base = "Some ''http://example.test''",
              THEN conjunct2, THEN conjunct2, THEN conjunct1, THEN mp, OF h3]
  have s0: "session_from (JStr ''T1'')
              (JObj [''token'' \<mapsto> JStr ''T1'', ''username'' \<mapsto> JStr ''admin'']) logged_in"
    using l by (simp add: logged_in_def login_token_def login_user_def js_or_def)
  note k = session_expired_effect
             [where s = logged_in and now = 101 and lresp = one_processor and refresh = False
                and token = "JStr ''T1''"
                and user = "JObj [''token'' \<mapsto> JStr ''T1'', ''username'' \<mapsto> JStr ''admin'']",
              THEN conjunct2, THEN conjunct2, THEN conjunct2, THEN mp, OF s0, THEN conjunct2]
  from t [THEN conjunct1, THEN mp, OF h1] t [THEN conjunct2, THEN conjunct1, THEN mp, OF h2] k
  show ?thesis by (simp add: logged_in_fields)
qed

subsection \<open>A refused login\<close>

text \<open>
  C7 (as stated). After a refused login no auth token is retained, also when an
  earlier login had succeeded. The token of the earlier login is in fact kept.
\<close>

theorem login_rejected_counterexample:
  "\<not> accepted login_refused
   \<and> \<not> lg_success (fst (login 300 login_refused ''admin'' ''wrong'' None logged_in))
   \<and> authToken (snd (login 300 login_refused ''admin'' ''wrong'' None logged_in)) = JStr ''T1''"
proof -
  have h: "\<not> accepted login_refused" by simp
  from login_refusal [OF h, of 300 "''admin''" "''wrong''" None logged_in] h
  show ?thesis by (simp add: logged_in_fields)
qed

text \<open>
  C7 (amended). A login that the remote does not accept returns \<open>success == false\<close>
  and sets the client's \<open>isAuthenticated\<close> flag to false; the stored auth token is
  left as it was before the call, so none is retained where none was held.
\<close>

theorem login_rejected:
  "\<not> accepted resp \<Longrightarrow>
     \<not> lg_success (fst (login now resp username password base s))
     \<and> \<not> isAuthenticated (snd (login now resp username password base s))
     \<and> authToken (snd (login now resp username password base s)) = authToken s"
  by (rule login_refusal)

theorem login_rejected_witness:
  "\<not> accepted login_refused
   \<and> \<not> lg_success (fst (login 10 login_refused ''admin'' ''wrong'' None fresh))
   \<and> \<not> isAuthenticated (snd (login 10 login_refused ''admin'' ''wrong'' None fresh))
   \<and> authToken (snd (login 10 login_refused ''admin'' ''wrong'' None fresh)) = JStr []"
proof -
  have h: "\<not> accepted login_refused" by simp
  from login_rejected [OF h, of 10 "''admin''" "''wrong''" None fresh] h
  show ?thesis by (simp add: fresh_fields)
qed

subsection \<open>Logout\<close>

text \<open>
  C8. \<open>logout\<close> always returns \<open>success == true\<close>, whatever the remote call and the
  clearing of the cookie jar do, and always leaves \<open>isAuthenticated\<close> false, the
  auth token the empty string and the session info reset.
\<close>

theorem logout_never_fails:
  "lo_success (fst (logout now resp jar_ok s))
   \<and> \<not> isAuthenticated (snd (logout now resp jar_ok s))
   \<and> authToken (snd (logout now resp jar_ok s)) = JStr []
   \<and> sessionInfo (snd (logout now resp jar_ok s)) = no_session"
  by (rule logout_effect)

subsection \<open>The result of a processor call\<close>

text \<open>
  C6 (as stated). The result's \<open>data\<close> is the first populated field among the
  remote \<open>data\<close>, \<open>object\<close>, \<open>results\<close>. This fails for a remote object whose \<open>data\<close>
  is present but null while \<open>object\<close> is populated: the remote fields are spread
  over the computed ones, so \<open>data\<close> stays null.
\<close>

theorem callProcessor_data_counterexample:
  "result_field
      (fst (callProcessor 200 (Http_ok [] (Value_body (JObj null_data_reply))) ''core''
              ''resource/get'' Map.empty logged_in)) ''data'' = Some JNull
   \<and> \<not> truthy JNull
   \<and> result_field
      (fst (callProcessor 200 (Http_ok [] (Value_body (JObj null_data_reply))) ''core''
              ''resource/get'' Map.empty logged_in)) ''object''
       = Some (JObj [''id'' \<mapsto> JNum 1])
   \<and> truthy (JObj [''id'' \<mapsto> JNum 1])"
  using callProcessor_fields
          [where s = logged_in and d = "Value_body (JObj null_data_reply)"
             and m = null_data_reply and now = 200 and cs = "[]" and ns = "''core''"
             and action = "''resource/get''" and data = Map.empty]
  by (simp add: logged_in_fields)

text \<open>
  C6 (amended). In an authenticated session, for a 2xx response whose body is a
  JSON object: the result's \<open>success\<close> is the remote \<open>success\<close> field, and true when
  the field is absent; its \<open>data\<close> is the remote \<open>data\<close> field whenever the remote
  object has one, and otherwise the first populated of the remote \<open>object\<close> and
  \<open>results\<close>; every remote field is passed through with its value. A body that is
  not JSON yields a result with \<open>success\<close> true and the raw body as \<open>data\<close>.
\<close>

theorem callProcessor_result_contract:
  "isAuthenticated s \<longrightarrow>
     (d = Value_body (JObj m) \<or> d = Text_body body (Some (JObj m)) \<longrightarrow>
        result_field (fst (callProcessor now (Http_ok cs d) ns action data s)) ''success''
          = Some (case m ''success'' of None \<Rightarrow> JBool True | Some v \<Rightarrow> v)
        \<and> result_field (fst (callProcessor now (Http_ok cs d) ns action data s)) ''data''
          = Some (case m ''data'' of
                    None \<Rightarrow> js_or (get_prop (JObj m) ''object'') (get_prop (JObj m) ''results'')
                  | Some v \<Rightarrow> v)
        \<and> (\<forall>k v. m k = Some v \<longrightarrow>
              result_field (fst (callProcessor now (Http_ok cs d) ns action data s)) k = Some v))
     \<and> result_field
          (fst (callProcessor now (Http_ok cs (Text_body body None)) ns action data s))
          ''success'' = Some (JBool True)
     \<and> result_field
          (fst (callProcessor now (Http_ok cs (Text_body body None)) ns action data s))
          ''data'' = Some (JStr body)"
  by (auto simp: callProcessor_ok result_field_def processor_result_object
        processor_result_raw raw_result_def)

theorem callProcessor_result_contract_witness:
  "result_field
      (fst (callProcessor 200 (Http_ok [] (Value_body (JObj getlist_reply))) ''core''
              ''resource/getlist'' getlist_args logged_in)) ''success'' = Some (JBool True)
   \<and> result_field
      (fst (callProcessor 200 (Http_ok [] (Value_body (JObj getlist_reply))) ''core''
              ''resource/getlist'' getlist_args logged_in)) ''data''
       = Some (JArr [JObj [''id'' \<mapsto> JNum 1, ''pagetitle'' \<mapsto> JStr ''Home'']])
   \<and> result_field
      (fst (callProcessor 200 (Http_ok [] (Text_body ''<html>'' None)) ''core''
              ''resource/getlist'' getlist_args logged_in)) ''data'' = Some (JStr ''<html>'')"
proof -
  have h: "isAuthenticated logged_in" by (simp add: logged_in_fields)
  have c: "Value_body (JObj getlist_reply) = Value_body (JObj getlist_reply)
           \<or> Value_body (JObj getlist_reply) = Text_body ''<html>'' (Some (JObj getlist_reply))"
    by simp
  note t = callProcessor_result_contract
             [where s = logged_in and d = "Value_body (JObj getlist_reply)"
                and m = getlist_reply and body = "''<html>''" and now = 200 and cs = "[]"
                and ns = "''core''" and action = "''resource/getlist''"
                and data = getlist_args, THEN mp, OF h]
  from t [THEN conjunct1, THEN mp, OF c] t [THEN conjunct2]
  show ?thesis by (simp add: js_or_def)
qed

section \<open>The dispatcher\<close>

lemma getAllTools_cases:
  "(\<not> si_isAuthenticated (sessionInfo (modxProxy d)) \<longrightarrow>
       getAllTools now resp d = ([baseTool], d))
   \<and> (si_isAuthenticated (sessionInfo (modxProxy d)) \<and> processorsCache d = Some ps \<longrightarrow>
       getAllTools now resp d = (baseTool # map createProcessorTool ps, d))
   \<and> (si_isAuthenticated (sessionInfo (modxProxy d)) \<and> processorsCache d = None
        \<and> fst (getProcessors now resp False (modxProxy d)) = Inl e \<longrightarrow>
       fst (getAllTools now resp d) = [baseTool]
       \<and> processorsCache (snd (getAllTools now resp d)) = None)
   \<and> (si_isAuthenticated (sessionInfo (modxProxy d)) \<and> processorsCache d = None
        \<and> fst (getProcessors now resp False (modxProxy d)) = Inr pl \<longrightarrow>
       fst (getAllTools now resp d) = baseTool # map createProcessorTool (processors pl)
       \<and> processorsCache (snd (getAllTools now resp d)) = Some (processors pl))"
  by (auto simp: getAllTools_def getSessionInfo_def split: prod.splits sum.splits)

lemma getAllTools_fetch:
  "si_isAuthenticated (sessionInfo (modxProxy d)) \<Longrightarrow> processorsCache d = None \<Longrightarrow>
   fst (getProcessors now resp False (modxProxy d)) = Inr pl \<Longrightarrow>
   processorsCache (snd (getAllTools now resp d)) = Some (processors pl)
   \<and> modxProxy (snd (getAllTools now resp d)) = snd (getProcessors now resp False (modxProxy d))"
  by (auto simp: getAllTools_def getSessionInfo_def split: prod.splits sum.splits)

subsection \<open>The example module\<close>

lemma started_fields:
  "processorsCache started = None"
  "modxProxy started = fresh"
  by (simp_all add: started_def start_def fresh_def)

lemma after_login_fields:
  "modxProxy after_login = logged_in"
  "processorsCache after_login = None"
  by (simp_all add: after_login_def logged_in_def started_fields)

lemma after_listing_fields:
  "processorsCache after_listing = Some [listing_processor]"
  "modxProxy after_listing = listed"
  using getAllTools_fetch [where d = after_login and now = 101 and resp = one_processor
                             and pl = one_processor_list]
  by (simp_all add: after_listing_def listed_def after_login_fields logged_in_fields
        logged_in_listing)

subsection \<open>Listing the tools\<close>

text \<open>
  C9. A tools/list before any login returns the session-info tool alone and leaves
  the state, with its trace of remote calls, untouched, as does any listing in a
  session that is not authenticated. In an authenticated session with N cached
  descriptors it returns N+1 tools: the fixed tool, then one generated tool per
  descriptor in cache order. With no cache yet it runs the discovery: on failure
  it returns the fixed tool alone, on success the fixed tool followed by the
  generated tools of the discovered list.
\<close>

theorem getAllTools_listing:
  "getAllTools now resp (start env_base env_connector env_admin)
      = ([baseTool], start env_base env_connector env_admin)
   \<and> (\<not> si_isAuthenticated (sessionInfo (modxProxy d)) \<longrightarrow>
       getAllTools now resp d = ([baseTool], d))
   \<and> (si_isAuthenticated (sessionInfo (modxProxy d)) \<and> processorsCache d = Some ps \<longrightarrow>
       fst (getAllTools now resp d) = baseTool # map createProcessorTool ps
       \<and> length (fst (getAllTools now resp d)) = length ps + 1
       \<and> snd (getAllTools now resp d) = d)
   \<and> (si_isAuthenticated (sessionInfo (modxProxy d)) \<and> processorsCache d = None
        \<and> fst (getProcessors now resp False (modxProxy d)) = Inl e \<longrightarrow>
       fst (getAllTools now resp d) = [baseTool])
   \<and> (si_isAuthenticated (sessionInfo (modxProxy d)) \<and> processorsCache d = None
        \<and> fst (getProcessors now resp False (modxProxy d)) = Inr pl \<longrightarrow>
       fst (getAllTools now resp d) = baseTool # map createProcessorTool (processors pl)
       \<and> length (fst (getAllTools now resp d)) = length (processors pl) + 1)"
proof -
  have "\<not> si_isAuthenticated
           (sessionInfo (modxProxy (start env_base env_connector env_admin)))"
    by (simp add: start_def new_service_def no_session_def)
  with getAllTools_cases [of "start env_base env_connector env_admin" now resp]
  have "getAllTools now resp (start env_base env_connector env_admin)
      = ([baseTool], start env_base env_connector env_admin)"
    by blast
  with getAllTools_cases [of d now resp ps e pl] show ?thesis
    by simp
qed

theorem getAllTools_listing_witness:
  "getAllTools 1 unauthorized started = ([baseTool], started)
   \<and> fst (getAllTools 101 one_processor after_login)
       = [baseTool, createProcessorTool listing_processor]
   \<and> fst (getAllTools 101 server_error after_login) = [baseTool]
   \<and> fst (getAllTools 106 (No_response ''offline'') after_listing)
       = [baseTool, createProcessorTool listing_processor]
   \<and> length (fst (getAllTools 106 (No_response ''offline'') after_listing)) = 2"
proof -
  have a: "si_isAuthenticated (sessionInfo (modxProxy after_login))"
    by (simp add: after_login_fields logged_in_fields)
  have h0: "\<not> si_isAuthenticated (sessionInfo (modxProxy started))"
    by (simp add: started_fields fresh_fields)
  have h2: "si_isAuthenticated (sessionInfo (modxProxy after_listing))
            \<and> processorsCache after_listing = Some [listing_processor]"
    by (simp add: after_listing_fields listed_fields)
  have h3: "si_isAuthenticated (sessionInfo (modxProxy after_login))
            \<and> processorsCache after_login = None
            \<and> fst (getProcessors 101 server_error False (modxProxy after_login))
                = Inl (Http_error (Some 500) ''Request failed with status code 500'')"
    using a by (simp add: after_login_fields logged_in_server_error)
  have h4: "si_isAuthenticated (sessionInfo (modxProxy after_login))
            \<and> processorsCache after_login = None
            \<and> fst (getProcessors 101 one_processor False (modxProxy after_login))
                = Inr one_processor_list"
    using a by (simp add: after_login_fields logged_in_listing)
  note t0 = getAllTools_listing [where d = started and now = 1 and resp = unauthorized]
  note t2 = getAllTools_listing
              [where d = after_listing and now = 106 and resp = "No_response ''offline''"
                 and ps = "[listing_processor]"]
  note t3 = getAllTools_listing
              [where d = after_login and now = 101 and resp = server_error
                 and e = "Http_error (Some 500) ''Request failed with status code 500''"]
  note t4 = getAllTools_listing
              [where d = after_login and now = 101 and resp = one_processor
                 and pl = one_processor_list]
  from t0 [THEN conjunct2, THEN conjunct1, THEN mp, OF h0]
       t2 [THEN conjunct2, THEN conjunct2, THEN conjunct1, THEN mp, OF h2]
       t3 [THEN conjunct2, THEN conjunct2, THEN conjunct2, THEN conjunct1, THEN mp, OF h3]
       t4 [THEN conjunct2, THEN conjunct2, THEN conjunct2, THEN conjunct2, THEN mp, OF h4]
  show ?thesis by simp
qed

subsection \<open>The dispatcher's cache\<close>

lemma fetch_split:
  "fetch_processors now resp s
     = (case fetch_begin now s of (p, s1) \<Rightarrow> getProcessors_resume p resp s1)"
  by (simp add: fetch_processors_def fetch_begin_def getProcessors_resume_def Let_def)

lemma getProcessors_split:
  "getProcessors now resp refresh s
     = (case getProcessors_begin now refresh s of (p, s1) \<Rightarrow> getProcessors_resume p resp s1)"
  by (simp add: getProcessors_def getProcessors_begin_def fetch_split
        getProcessors_resume_def split: option.splits)

lemma getAllTools_split:
  "getAllTools now resp d
     = (case getAllTools_begin now d of
          (Listed ts, d1) \<Rightarrow> (ts, d1)
        | (Suspended p, d1) \<Rightarrow> getAllTools_resume p resp d1)"
  by (simp add: getAllTools_def getAllTools_begin_def getAllTools_resume_def
        getProcessors_split split: option.splits prod.splits sum.splits)

lemma begin_keeps_cache:
  "processorsCache (snd (getAllTools_begin now d)) = processorsCache d"
  by (simp add: getAllTools_begin_def split: option.splits prod.splits)

lemma begin_suspends:
  "fst (getAllTools_begin now d) = Suspended p \<Longrightarrow>
   processorsCache d = None \<and> si_isAuthenticated (sessionInfo (modxProxy d))"
  by (auto simp: getAllTools_begin_def getSessionInfo_def
           split: option.splits prod.splits if_splits)

lemma resume_cache:
  "processorsCache (snd (getAllTools_resume p resp d))
     = (case fst (getProcessors_resume p resp (modxProxy d)) of
          Inl e \<Rightarrow> processorsCache d
        | Inr pl \<Rightarrow> Some (processors pl))"
  by (simp add: getAllTools_resume_def split: prod.splits sum.splits)

lemma sys_step_module:
  "module_state (sys_step st (Begin_list rid now))
     = (if in_flight st rid = None then snd (getAllTools_begin now (module_state st))
        else module_state st)"
  "module_state (sys_step st (Finish_list rid resp))
     = (case in_flight st rid of
          None \<Rightarrow> module_state st
        | Some p \<Rightarrow> snd (getAllTools_resume p resp (module_state st)))"
  "module_state (sys_step st (Other f))
     = (module_state st)\<lparr>modxProxy := f (modxProxy (module_state st))\<rparr>"
  by (simp_all add: sys_step.simps split: option.splits prod.splits listing_progress.splits)

lemma sys_step_in_flight:
  "in_flight (sys_step st (Begin_list rid now))
     = (case (in_flight st rid, fst (getAllTools_begin now (module_state st))) of
          (None, Suspended p) \<Rightarrow> (in_flight st)(rid \<mapsto> p)
        | _ \<Rightarrow> in_flight st)"
  "in_flight (sys_step st (Finish_list rid resp)) = (in_flight st)(rid := None)"
  "in_flight (sys_step st (Other f)) = in_flight st"
  by (auto simp: sys_step.simps split: option.splits prod.splits listing_progress.splits)

lemma sys_step_never_clears:
  "processorsCache (module_state st) \<noteq> None \<Longrightarrow>
   processorsCache (module_state (sys_step st act)) \<noteq> None"
  by (cases act)
     (auto simp: sys_step_module begin_keeps_cache resume_cache
           split: option.splits sum.splits)

lemma sys_run_never_clears:
  "processorsCache (module_state st) \<noteq> None \<Longrightarrow>
   processorsCache (module_state (sys_run st acts)) \<noteq> None"
  unfolding sys_run_def
proof (induction acts arbitrary: st)
  case Nil
  then show ?case by simp
next
  case (Cons a acts)
  from Cons.prems have "processorsCache (module_state (sys_step st a)) \<noteq> None"
    by (rule sys_step_never_clears)
  then have "processorsCache (module_state (foldl sys_step (sys_step st a) acts)) \<noteq> None"
    by (rule Cons.IH)
  then show ?case by simp
qed

lemma sys_step_quiet:
  "in_flight st = Map.empty \<Longrightarrow> processorsCache (module_state st) = Some ps \<Longrightarrow>
   in_flight (sys_step st act) = Map.empty
   \<and> processorsCache (module_state (sys_step st act)) = Some ps"
proof (cases act)
  case (Begin_list rid now)
  have "\<And>p. fst (getAllTools_begin now (module_state st)) \<noteq> Suspended p"
    if "processorsCache (module_state st) = Some ps"
    using that begin_suspends [of now "module_state st"] by auto
  then show ?thesis
    if "in_flight st = Map.empty" "processorsCache (module_state st) = Some ps"
    using that Begin_list
    by (auto simp: sys_step_module sys_step_in_flight begin_keeps_cache
             split: listing_progress.splits)
next
  case (Finish_list rid resp)
  then show ?thesis
    if "in_flight st = Map.empty" "processorsCache (module_state st) = Some ps"
    using that by (simp add: sys_step_module sys_step_in_flight)
next
  case (Other f)
  then show ?thesis
    if "in_flight st = Map.empty" "processorsCache (module_state st) = Some ps"
    using that by (simp add: sys_step_module sys_step_in_flight)
qed


lemma sys_run_quiet:
  "in_flight st = Map.empty \<Longrightarrow> processorsCache (module_state st) = Some ps \<Longrightarrow>
   in_flight (sys_run st acts) = Map.empty
   \<and> processorsCache (module_state (sys_run st acts)) = Some ps"
  unfolding sys_run_def
proof (induction acts arbitrary: st)
  case Nil
  then show ?case by simp
next
  case (Cons a acts)
  from sys_step_quiet [OF Cons.prems, of a]
  have "in_flight (sys_step st a) = Map.empty"
    and "processorsCache (module_state (sys_step st a)) = Some ps"
    by simp_all
  then have "in_flight (foldl sys_step (sys_step st a) acts) = Map.empty
     \<and> processorsCache (module_state (foldl sys_step (sys_step st a) acts)) = Some ps"
    by (rule Cons.IH)
  then show ?case by simp
qed

lemma sys_step_assigns:
  "processorsCache (module_state (sys_step st act)) \<noteq> processorsCache (module_state st) \<Longrightarrow>
   \<exists>rid resp p pl. act = Finish_list rid resp \<and> in_flight st rid = Some p
      \<and> fst (getProcessors_resume p resp (modxProxy (module_state st))) = Inr pl
      \<and> processorsCache (module_state (sys_step st act)) = Some (processors pl)"
  by (cases act)
     (auto simp: sys_step_module begin_keeps_cache resume_cache
           split: option.splits sum.splits if_splits)

lemma sys_step_suspends:
  "in_flight st rid = None \<Longrightarrow> in_flight (sys_step st act) rid = Some p \<Longrightarrow>
   \<exists>now. act = Begin_list rid now \<and> processorsCache (module_state st) = None
      \<and> si_isAuthenticated (sessionInfo (modxProxy (module_state st)))"
  by (cases act)
     (auto simp: sys_step_in_flight split: option.splits listing_progress.splits if_splits
           dest: begin_suspends)

lemma begin_waits:
  assumes "si_isAuthenticated (sessionInfo (modxProxy d))" and "isAuthenticated (modxProxy d)"
    and "processorsCache d = None" and "processorCache (modxProxy d) = None"
  shows "fst (getAllTools_begin now d) = Suspended Awaiting_response"
    and "si_isAuthenticated (sessionInfo (modxProxy (snd (getAllTools_begin now d))))"
    and "isAuthenticated (modxProxy (snd (getAllTools_begin now d)))"
    and "processorCache (modxProxy (snd (getAllTools_begin now d))) = None"
  using assms
  by (simp_all add: getAllTools_begin_def getSessionInfo_def getProcessors_begin_def
        fetch_begin_def Let_def plumbing_fields)

lemma finish_assigns:
  "in_flight st rid = Some Awaiting_response \<Longrightarrow>
   processorsCache (module_state (sys_step st (Finish_list rid
      (Http_ok cs (Value_body \<lparr> lr_success = True, lr_object = Some ob, lr_message = m \<rparr>)))))
     = Some (case lo_processors ob of None \<Rightarrow> [] | Some ps \<Rightarrow> ps)"
  by (simp add: sys_step_module resume_cache getProcessors_resume_def accept_listing_def
        Let_def)

lemma idle_fields:
  "module_state (idle d) = d" "in_flight (idle d) rid = None"
  by (simp_all add: idle_def)

lemma after_login_ready:
  "si_isAuthenticated (sessionInfo (modxProxy after_login))"
  "isAuthenticated (modxProxy after_login)"
  "processorsCache after_login = None"
  "processorCache (modxProxy after_login) = None"
  by (simp_all add: after_login_fields logged_in_fields)

lemma two_begun:
  "in_flight (sys_run (idle after_login) [Begin_list 11 101, Begin_list 12 102]) 11
     = Some Awaiting_response"
  "in_flight (sys_run (idle after_login) [Begin_list 11 101, Begin_list 12 102]) 12
     = Some Awaiting_response"
  "processorsCache (module_state
      (sys_run (idle after_login) [Begin_list 11 101, Begin_list 12 102])) = None"
proof -
  define s1 where "s1 = sys_step (idle after_login) (Begin_list 11 101)"
  define s2 where "s2 = sys_step s1 (Begin_list 12 102)"
  have r: "sys_run (idle after_login) [Begin_list 11 101, Begin_list 12 102] = s2"
    by (simp add: sys_run_def s1_def s2_def)
  have m1: "module_state s1 = snd (getAllTools_begin 101 after_login)"
    by (simp add: s1_def sys_step_module idle_fields)
  have f1: "in_flight s1 11 = Some Awaiting_response" "in_flight s1 12 = None"
    by (simp_all add: s1_def sys_step_in_flight idle_fields
          begin_waits(1) [OF after_login_ready])
  note w1 = begin_waits [OF after_login_ready, of 101, folded m1]
  have c1: "processorsCache (module_state s1) = None"
    by (simp add: m1 begin_keeps_cache after_login_ready)
  note w2 = begin_waits [OF w1(2) w1(3) c1 w1(4), of 102]
  show "in_flight (sys_run (idle after_login) [Begin_list 11 101, Begin_list 12 102]) 11
     = Some Awaiting_response"
    by (simp add: r s2_def sys_step_in_flight f1 w2(1))
  show "in_flight (sys_run (idle after_login) [Begin_list 11 101, Begin_list 12 102]) 12
     = Some Awaiting_response"
    by (simp add: r s2_def sys_step_in_flight f1 w2(1))
  show "processorsCache (module_state
      (sys_run (idle after_login) [Begin_list 11 101, Begin_list 12 102])) = None"
    by (simp add: r s2_def sys_step_module f1 begin_keeps_cache c1)
qed

lemma sys_run_snoc: "sys_run st (acts @ [a]) = sys_step (sys_run st acts) a"
  by (simp add: sys_run_def)

lemma first_finished_state:
  "processorsCache (module_state (sys_run (idle after_login) first_finished))
     = Some [listing_processor]"
  "in_flight (sys_run (idle after_login) first_finished) 12 = Some Awaiting_response"
  using sys_run_snoc [of "idle after_login" "[Begin_list 11 101, Begin_list 12 102]"
                         "Finish_list 11 one_processor"]
  by (simp_all add: finish_assigns two_begun sys_step_in_flight)

lemma both_finished_state:
  "processorsCache (module_state (sys_run (idle after_login) both_finished)) = Some []"
  using sys_run_snoc [of "idle after_login" first_finished "Finish_list 12 no_processors"]
  by (simp add: finish_assigns first_finished_state)

lemma listing_processor_name:
  "processorToToolName (namespace listing_processor) (path listing_processor)
     = ''modx_core_resource_getlist''"
  "namespace listing_processor = ''core''" "path listing_processor = ''resource/getlist''"
  by (simp_all add: listing_processor_def tool_name_slash)

text \<open>
  C10 (as stated). The cache is assigned at most once, and every later reverse
  lookup reads that first snapshot. This fails when two tools/list requests
  overlap: both find the cache empty before awaiting the discovery, and both
  assign it when resumed; the second list replaces the first, and a name that
  resolved against the first no longer resolves.
\<close>

theorem processorsCache_overlap_counterexample:
  "processorsCache (module_state (sys_run (idle after_login) first_finished))
     = Some [listing_processor]
   \<and> processorsCache (module_state (sys_run (idle after_login) both_finished)) = Some []
   \<and> toolNameToProcessor
        (processorsCache (module_state (sys_run (idle after_login) first_finished)))
        ''modx_core_resource_getlist'' = Some (''core'', ''resource/getlist'')
   \<and> toolNameToProcessor
        (processorsCache (module_state (sys_run (idle after_login) both_finished)))
        ''modx_core_resource_getlist'' = None"
  by (simp add: first_finished_state both_finished_state toolNameToProcessor_def
        startsWith_def listing_processor_name tool_name_slash)

text \<open>
  C10 (amended). No code path clears the dispatcher's \<open>processorsCache\<close>: once it
  holds a list it holds one for ever. It is assigned only when a tools/list is
  resumed after a discovery that succeeded, by a handler that had found the cache
  empty in an authenticated session before it awaited the discovery; it then
  holds the discovered list. Once it holds a list while no such handler is
  waiting, the list is final: no later tools/list, nor anything else that happens
  (logout, login, a forced refresh of the client's cache), changes it, and every
  later reverse lookup and every later listing in an authenticated session reads
  it.
\<close>

theorem processorsCache_never_cleared:
  "(processorsCache (module_state st) \<noteq> None \<longrightarrow>
      processorsCache (module_state (sys_run st acts)) \<noteq> None)
   \<and> (processorsCache (module_state (sys_step st act)) \<noteq> processorsCache (module_state st)
        \<longrightarrow>
      (\<exists>rid resp p pl. act = Finish_list rid resp \<and> in_flight st rid = Some p
          \<and> fst (getProcessors_resume p resp (modxProxy (module_state st))) = Inr pl
          \<and> processorsCache (module_state (sys_step st act)) = Some (processors pl)))
   \<and> (in_flight st rid = None \<and> in_flight (sys_step st act) rid = Some p \<longrightarrow>
      (\<exists>now. act = Begin_list rid now \<and> processorsCache (module_state st) = None
          \<and> si_isAuthenticated (sessionInfo (modxProxy (module_state st)))))
   \<and> (in_flight st = Map.empty \<and> processorsCache (module_state st) = Some ps \<longrightarrow>
      in_flight (sys_run st acts) = Map.empty
      \<and> processorsCache (module_state (sys_run st acts)) = Some ps
      \<and> toolNameToProcessor (processorsCache (module_state (sys_run st acts))) name
          = toolNameToProcessor (Some ps) name
      \<and> (si_isAuthenticated (sessionInfo (modxProxy (module_state (sys_run st acts)))) \<longrightarrow>
           fst (getAllTools_begin now (module_state (sys_run st acts)))
             = Listed (baseTool # map createProcessorTool ps)))"
proof -
  have 1: "processorsCache (module_state st) \<noteq> None \<longrightarrow>
      processorsCache (module_state (sys_run st acts)) \<noteq> None"
    using sys_run_never_clears [of st acts] by blast
  have 2: "processorsCache (module_state (sys_step st act)) \<noteq> processorsCache (module_state st)
        \<longrightarrow>
      (\<exists>rid resp p pl. act = Finish_list rid resp \<and> in_flight st rid = Some p
          \<and> fst (getProcessors_resume p resp (modxProxy (module_state st))) = Inr pl
          \<and> processorsCache (module_state (sys_step st act)) = Some (processors pl))"
    using sys_step_assigns [of st act] by blast
  have 3: "in_flight st rid = None \<and> in_flight (sys_step st act) rid = Some p \<longrightarrow>
      (\<exists>now. act = Begin_list rid now \<and> processorsCache (module_state st) = None
          \<and> si_isAuthenticated (sessionInfo (modxProxy (module_state st))))"
    using sys_step_suspends [of st rid act p] by blast
  have 4: "in_flight st = Map.empty \<and> processorsCache (module_state st) = Some ps \<longrightarrow>
      in_flight (sys_run st acts) = Map.empty
      \<and> processorsCache (module_state (sys_run st acts)) = Some ps
      \<and> toolNameToProcessor (processorsCache (module_state (sys_run st acts))) name
          = toolNameToProcessor (Some ps) name
      \<and> (si_isAuthenticated (sessionInfo (modxProxy (module_state (sys_run st acts)))) \<longrightarrow>
           fst (getAllTools_begin now (module_state (sys_run st acts)))
             = Listed (baseTool # map createProcessorTool ps))"
  proof
    assume q: "in_flight st = Map.empty \<and> processorsCache (module_state st) = Some ps"
    then have r: "in_flight (sys_run st acts) = Map.empty"
      "processorsCache (module_state (sys_run st acts)) = Some ps"
      using sys_run_quiet [of st ps acts] by simp_all
    then show "in_flight (sys_run st acts) = Map.empty
      \<and> processorsCache (module_state (sys_run st acts)) = Some ps
      \<and> toolNameToProcessor (processorsCache (module_state (sys_run st acts))) name
          = toolNameToProcessor (Some ps) name
      \<and> (si_isAuthenticated (sessionInfo (modxProxy (module_state (sys_run st acts)))) \<longrightarrow>
           fst (getAllTools_begin now (module_state (sys_run st acts)))
             = Listed (baseTool # map createProcessorTool ps))"
      by (simp add: getAllTools_begin_def getSessionInfo_def)
  qed
  show ?thesis
    by (rule conjI [OF 1 conjI [OF 2 conjI [OF 3 4]]])
qed

theorem processorsCache_never_cleared_witness:
  "processorsCache (module_state
      (sys_run (sys_run (idle after_login) first_finished) [Finish_list 12 no_processors]))
     \<noteq> None
   \<and> (\<exists>rid resp p pl. Finish_list 11 one_processor = Finish_list rid resp
         \<and> in_flight (sys_run (idle after_login) [Begin_list 11 101, Begin_list 12 102]) rid
             = Some p
         \<and> fst (getProcessors_resume p resp
                  (modxProxy (module_state
                     (sys_run (idle after_login) [Begin_list 11 101, Begin_list 12 102]))))
             = Inr pl
         \<and> processorsCache (module_state
              (sys_step (sys_run (idle after_login) [Begin_list 11 101, Begin_list 12 102])
                 (Finish_list 11 one_processor))) = Some (processors pl))
   \<and> (\<exists>now. Begin_list 11 101 = Begin_list 11 now \<and> processorsCache after_login = None
         \<and> si_isAuthenticated (sessionInfo (modxProxy after_login)))
   \<and> in_flight (sys_run (idle after_listing) later_activities) = Map.empty
   \<and> processorsCache (module_state (sys_run (idle after_listing) later_activities))
       = Some [listing_processor]
   \<and> toolNameToProcessor
        (processorsCache (module_state (sys_run (idle after_listing) later_activities)))
        ''modx_core_resource_getlist'' = Some (''core'', ''resource/getlist'')"
proof -
  have h1: "processorsCache (module_state (sys_run (idle after_login) first_finished)) \<noteq> None"
    by (simp add: first_finished_state)
  have h2: "processorsCache (module_state
               (sys_step (sys_run (idle after_login) [Begin_list 11 101, Begin_list 12 102])
                  (Finish_list 11 one_processor)))
            \<noteq> processorsCache (module_state
                 (sys_run (idle after_login) [Begin_list 11 101, Begin_list 12 102]))"
    by (simp add: finish_assigns two_begun)
  have h3: "in_flight (idle after_login) 11 = None
            \<and> in_flight (sys_step (idle after_login) (Begin_list 11 101)) 11
                = Some Awaiting_response"
    by (simp add: idle_fields sys_step_in_flight begin_waits(1) [OF after_login_ready])
  have h4: "in_flight (idle after_listing) = Map.empty
            \<and> processorsCache (module_state (idle after_listing)) = Some [listing_processor]"
    by (simp add: idle_def after_listing_fields)
  note a = processorsCache_never_cleared
             [where st = "sys_run (idle after_login) first_finished"
                and acts = "[Finish_list 12 no_processors]",
              THEN conjunct1, THEN mp, OF h1]
  note b = processorsCache_never_cleared
             [where st = "sys_run (idle after_login) [Begin_list 11 101, Begin_list 12 102]"
                and act = "Finish_list 11 one_processor",
              THEN conjunct2, THEN conjunct1, THEN mp, OF h2]
  note c = processorsCache_never_cleared
             [where st = "idle after_login" and rid = 11 and act = "Begin_list 11 101"
                and p = Awaiting_response,
              THEN conjunct2, THEN conjunct2, THEN conjunct1, THEN mp, OF h3]
  note d = processorsCache_never_cleared
             [where st = "idle after_listing" and ps = "[listing_processor]"
                and acts = later_activities and name = "''modx_core_resource_getlist''",
              THEN conjunct2, THEN conjunct2, THEN conjunct2, THEN mp, OF h4]
  have e: "toolNameToProcessor (Some [listing_processor]) ''modx_core_resource_getlist''
             = Some (''core'', ''resource/getlist'')"
    by (simp add: toolNameToProcessor_def startsWith_def listing_processor_name tool_name_slash)
  from d e have d': "in_flight (sys_run (idle after_listing) later_activities) = Map.empty
     \<and> processorsCache (module_state (sys_run (idle after_listing) later_activities))
         = Some [listing_processor]
     \<and> toolNameToProcessor
          (processorsCache (module_state (sys_run (idle after_listing) later_activities)))
          ''modx_core_resource_getlist'' = Some (''core'', ''resource/getlist'')"
    by simp
  from c have c': "\<exists>now. Begin_list 11 101 = Begin_list 11 now
      \<and> processorsCache after_login = None
      \<and> si_isAuthenticated (sessionInfo (modxProxy after_login))"
    by (simp add: idle_fields)
  show ?thesis
    by (rule conjI [OF a conjI [OF b conjI [OF c' d']]])
qed

end
